theory Spec2Isabelle
  imports Complex_Main
begin

section \<open>Data model (backend/models/index.js)\<close>

text \<open>
  Dates are milliseconds since the epoch, document ids are natural numbers, and a
  JavaScript Number is an \<open>int\<close> where the code only counts with it and a \<open>real\<close>
  where it carries a coordinate, a radius or a confidence score. The schema's string
  enums are datatypes: a request value outside an enum fails the schema validation
  of \<open>save()\<close> and never reaches the code after it.
\<close>

type_synonym time = int
type_synonym objid = nat

datatype severity = Low | Medium | High | Critical

datatype report_type =
  R_erosion | R_pollution | R_weather | R_wildlife | R_infrastructure | R_tsunami | R_other

datatype alert_type =
  A_cyclone | A_tsunami | A_flood | A_pollution | A_storm_surge | A_erosion | A_other

record User =
  uid :: objid
  name :: string
  points :: int
  level :: string
  badges :: "string list"
  pref_push :: bool
  pref_community :: bool
  streak :: int
  lastActive :: time

record AiAnalysis =
  ai_severity :: real
  ai_confidence :: real
  ai_tags :: "string list"
  ai_credibility :: real

record Report =
  rid :: objid
  r_userId :: objid
  r_type :: report_type
  r_severity :: severity
  r_title :: string
  r_description :: string
  r_coordinates :: "real \<times> real"
  r_accuracy :: "string option"
  r_address :: "string option"
  r_attachments :: "string list"
  r_verified :: bool
  r_aiAnalysis :: "AiAnalysis option"
  votes_helpful :: int
  votes_notHelpful :: int
  voters :: "objid list"
  r_createdAt :: time

text \<open>
  An evacuation zone is a sub-document in the schema (name, radius, priority,
  instructions). A caller of the \<open>Alert\<close> constructor may pass such an object or a
  plain string; the string does not cast to a sub-document.
\<close>

datatype zone = ZoneDoc string real string string | ZoneText string

record Alert =
  aid :: objid
  a_type :: alert_type
  a_severity :: severity
  a_title :: string
  a_description :: string
  a_coordinates :: "real \<times> real"
  a_radius :: real
  a_eta :: "string option"
  a_duration :: "string option"
  a_confidence :: "real option"
  a_affectedPopulation :: "string option"
  a_evacuationZones :: "zone list"
  a_source :: string
  a_aiPrediction :: bool
  a_active :: bool
  a_updatedAt :: time
  a_createdAt :: time
  a_expiresAt :: "time option"

datatype notification_type = N_alert | N_report | N_achievement | N_system
  | N_emergency | N_weather | N_community

record Notification =
  n_userId :: objid
  n_title :: string
  n_message :: string
  n_type :: notification_type
  n_priority :: severity

text \<open>
  The schema validation that \<open>save()\<close> runs before it writes. The enums are the
  types above. For a report, \<open>description\<close> is required; for an alert, \<open>title\<close>,
  \<open>description\<close> and \<open>source\<close> are required, \<open>confidence\<close> has \<open>min: 0\<close> and
  \<open>max: 100\<close>, and every evacuation zone must cast to a sub-document. A required
  string is refused when it is missing or empty.
\<close>

definition zoneCasts :: "zone \<Rightarrow> bool" where
  "zoneCasts z = (case z of ZoneDoc n r p i \<Rightarrow> True | ZoneText s \<Rightarrow> False)"

definition reportValid :: "Report \<Rightarrow> bool" where
  "reportValid r = (r_description r \<noteq> [])"

definition alertValid :: "Alert \<Rightarrow> bool" where
  "alertValid a =
     (a_title a \<noteq> [] \<and> a_description a \<noteq> [] \<and> a_source a \<noteq> []
      \<and> (case a_confidence a of None \<Rightarrow> True | Some c \<Rightarrow> 0 \<le> c \<and> c \<le> 100)
      \<and> list_all zoneCasts (a_evacuationZones a))"

text \<open>The collections of the store.\<close>

record State =
  users :: "User list"
  reports :: "Report list"
  alerts :: "Alert list"
  notifications :: "Notification list"

section \<open>The store's operations\<close>

text \<open>\<open>findByIdAndUpdate\<close> changes the first document that matches and no other.\<close>

fun update_first :: "('a \<Rightarrow> bool) \<Rightarrow> ('a \<Rightarrow> 'a) \<Rightarrow> 'a list \<Rightarrow> 'a list" where
  "update_first P f [] = []"
| "update_first P f (x # xs) = (if P x then f x # xs else x # update_first P f xs)"

definition findUser :: "State \<Rightarrow> objid \<Rightarrow> User option" where
  "findUser st i = find (\<lambda>u. uid u = i) (users st)"

definition updateUser :: "objid \<Rightarrow> (User \<Rightarrow> User) \<Rightarrow> State \<Rightarrow> State" where
  "updateUser i f st = st\<lparr>users := update_first (\<lambda>u. uid u = i) f (users st)\<rparr>"

definition findReport :: "State \<Rightarrow> objid \<Rightarrow> Report option" where
  "findReport st i = find (\<lambda>r. rid r = i) (reports st)"

definition updateReport :: "objid \<Rightarrow> (Report \<Rightarrow> Report) \<Rightarrow> State \<Rightarrow> State" where
  "updateReport i f st = st\<lparr>reports := update_first (\<lambda>r. rid r = i) f (reports st)\<rparr>"



text \<open>\<open>countDocuments\<close> with a filter.\<close>

definition countDocuments :: "('a \<Rightarrow> bool) \<Rightarrow> 'a list \<Rightarrow> nat" where
  "countDocuments P xs = length (filter P xs)"

text \<open>A new document gets an id that no document of its collection has.\<close>

definition fresh_id :: "objid list \<Rightarrow> objid" where
  "fresh_id ids = Suc (fold max ids 0)"

section \<open>Gamification helpers (backend/routes/reports.js)\<close>

definition day_ms :: int where
  "day_ms = 24 * 60 * 60 * 1000"

text \<open>
  \<open>checkAndUpdateStreak\<close>: \<open>today\<close> is the value of
  \<open>new Date().setHours(0, 0, 0, 0)\<close>. A user that is not found makes
  \<open>user.streak\<close> throw inside the try block, and the catch leaves the store as it is.
\<close>

definition checkAndUpdateStreak :: "time \<Rightarrow> objid \<Rightarrow> State \<Rightarrow> State" where
  "checkAndUpdateStreak today userId st =
     (let yesterday = today - day_ms;
          todayReports = countDocuments
            (\<lambda>r. r_userId r = userId \<and> today \<le> r_createdAt r) (reports st);
          yesterdayReports = countDocuments
            (\<lambda>r. r_userId r = userId \<and> yesterday \<le> r_createdAt r \<and> r_createdAt r < today)
            (reports st)
      in if todayReports > 0 then
           (case findUser st userId of
              None \<Rightarrow> st
            | Some user \<Rightarrow>
                if yesterdayReports > 0
                then updateUser userId (\<lambda>u. u\<lparr>streak := streak user + 1\<rparr>) st
                else updateUser userId (\<lambda>u. u\<lparr>streak := 1\<rparr>) st)
         else st)"

text \<open>
  The point award of a submission. \<open>pointsMap[type] || 10\<close> gives 10 to the type
  that the table does not list. The multipliers 1.2 and 1.5 are doubles in the source;
  the sum they multiply is a multiple of 5 (every base value and the evidence bonus
  are), and on such a sum the double product and the exact one have the same floor.
\<close>

definition pointsMap :: "report_type \<Rightarrow> int option" where
  "pointsMap t = (case t of
       R_erosion \<Rightarrow> Some 15 | R_pollution \<Rightarrow> Some 20 | R_weather \<Rightarrow> Some 25
     | R_wildlife \<Rightarrow> Some 10 | R_infrastructure \<Rightarrow> Some 15 | R_tsunami \<Rightarrow> Some 50
     | R_other \<Rightarrow> None)"

definition basePoints :: "report_type \<Rightarrow> int" where
  "basePoints t = (case pointsMap t of Some p \<Rightarrow> p | None \<Rightarrow> 10)"

definition evidenceBonus :: "'a list \<Rightarrow> int" where
  "evidenceBonus attachments = int (length attachments) * 5"

definition severityMultiplier :: "severity \<Rightarrow> real" where
  "severityMultiplier s = (case s of Low \<Rightarrow> 1 | Medium \<Rightarrow> 1.2 | High \<Rightarrow> 1.5 | Critical \<Rightarrow> 2)"

definition totalPoints :: "report_type \<Rightarrow> severity \<Rightarrow> 'a list \<Rightarrow> int" where
  "totalPoints t s attachments =
     \<lfloor>real_of_int (basePoints t + evidenceBonus attachments) * severityMultiplier s\<rfloor>"

section \<open>What the handlers take from outside\<close>

text \<open>
  The clock, the AI scoring oracle and the database server are not code of the
  routes. Every place of the code that reads the clock has its own reading:
  \<open>now\<close> is the reading that a route handler writes itself (\<open>new Date()\<close>,
  \<open>Date.now()\<close>), \<open>helperNow\<close> the one that \<open>autoGenerateAlert\<close> writes, \<open>today\<close>
  the local midnight that \<open>checkAndUpdateStreak\<close> computes, and \<open>reportCreatedAt\<close>,
  \<open>alertUpdatedAt\<close> and \<open>alertCreatedAt\<close> are the readings of the schema defaults
  \<open>Date.now\<close> when a new document is built, which happens after the arguments of
  the constructor have been evaluated.

  \<open>reportAccepted\<close> and \<open>alertAccepted\<close> say whether the database server takes a
  document that is written to it, new or patched (the write resolves), or refuses it
  (the write throws): the schemas declare a \<open>2dsphere\<close> index on the location of a
  report and on the coordinates of an alert, and what an index refuses is the
  server's decision. \<open>userGeoWithin\<close> and \<open>alertGeoWithin\<close> are the server's
  evaluation of a \<open>$geoWithin\<close>/\<open>$centerSphere\<close> clause on a document.

  \<open>helpersResolve\<close> says whether the identifiers that the helper functions use
  without declaring or importing them (\<open>req\<close> in reports.js, \<open>NotificationService\<close>
  in alerts.js) resolve to the notification service. Where they do not, the use
  throws a ReferenceError: inside a helper's try block it is caught there; inside a
  callback that is not awaited it is an unhandled rejection, which ends the process
  before the request is answered.
\<close>

record Env =
  now :: time
  helperNow :: time
  today :: time
  reportCreatedAt :: time
  alertUpdatedAt :: time
  alertCreatedAt :: time
  analyzeReport :: "Report \<Rightarrow> AiAnalysis option"
  reportAccepted :: "Report \<Rightarrow> bool"
  alertAccepted :: "Alert \<Rightarrow> bool"
  userGeoWithin :: "real \<times> real \<Rightarrow> real \<Rightarrow> User \<Rightarrow> bool"
  alertGeoWithin :: "real \<times> real \<Rightarrow> real \<Rightarrow> Alert \<Rightarrow> bool"
  helpersResolve :: bool

text \<open>
  A response: \<open>Reply\<close> is \<open>res.status(n).json(payload)\<close>, \<open>ErrorReply\<close> is
  \<open>res.status(n).json({ error: msg })\<close> with a message the route writes itself,
  \<open>ServerError\<close> is the 500 with which the catch block of a route answers an
  exception, and \<open>NoReply\<close> is the request that gets no answer because the process
  has ended.
\<close>

datatype 'a reply = Reply nat 'a | ErrorReply nat string | ServerError | NoReply

section \<open>Names of the enum values\<close>

definition report_type_name :: "report_type \<Rightarrow> string" where
  "report_type_name t = (case t of
       R_erosion \<Rightarrow> ''erosion'' | R_pollution \<Rightarrow> ''pollution'' | R_weather \<Rightarrow> ''weather''
     | R_wildlife \<Rightarrow> ''wildlife'' | R_infrastructure \<Rightarrow> ''infrastructure''
     | R_tsunami \<Rightarrow> ''tsunami'' | R_other \<Rightarrow> ''other'')"

definition severity_name :: "severity \<Rightarrow> string" where
  "severity_name s = (case s of
       Low \<Rightarrow> ''low'' | Medium \<Rightarrow> ''medium'' | High \<Rightarrow> ''high'' | Critical \<Rightarrow> ''critical'')"

definition toUpperCase_char :: "char \<Rightarrow> char" where
  "toUpperCase_char c =
     (let n = (of_char c :: nat) in if 97 \<le> n \<and> n \<le> 122 then char_of (n - 32) else c)"

definition toUpperCase :: "string \<Rightarrow> string" where
  "toUpperCase s = map toUpperCase_char s"

definition capitalize :: "string \<Rightarrow> string" where
  "capitalize s = (case s of [] \<Rightarrow> [] | c # cs \<Rightarrow> toUpperCase_char c # cs)"

text \<open>
  The alert schema's type enum has four of the report types; an alert built with
  another report type fails the schema validation of \<open>save()\<close>.
\<close>

definition alertTypeOfReport :: "report_type \<Rightarrow> alert_type option" where
  "alertTypeOfReport t = (case t of
       R_erosion \<Rightarrow> Some A_erosion | R_pollution \<Rightarrow> Some A_pollution
     | R_tsunami \<Rightarrow> Some A_tsunami | R_other \<Rightarrow> Some A_other
     | R_weather \<Rightarrow> None | R_wildlife \<Rightarrow> None | R_infrastructure \<Rightarrow> None)"

section \<open>Notification service (backend/services/notificationService.js)\<close>

text \<open>
  \<open>sendPushNotification\<close> returns false, and stores nothing, for a user that is not
  found or has push notifications off; otherwise it stores the notification.
\<close>

definition sendPushNotification :: "objid \<Rightarrow> Notification \<Rightarrow> State \<Rightarrow> bool \<times> State" where
  "sendPushNotification userId n st =
     (case findUser st userId of
        None \<Rightarrow> (False, st)
      | Some user \<Rightarrow>
          if \<not> pref_push user then (False, st)
          else (True, st\<lparr>notifications := notifications st @ [n\<lparr>n_userId := userId\<rparr>]\<rparr>))"

section \<open>Report helpers (backend/routes/reports.js)\<close>

text \<open>
  \<open>checkAchievements\<close>: the badges are collected in the order of the source, then
  pushed onto the user's badges with 100 points each and saved. A user that is not
  found makes the reads of \<open>user\<close> throw, and the catch leaves the store as it is.
  After the save, one notification for each badge is sent from an async callback of
  \<open>forEach\<close>, which nothing awaits: the helper's try block is left before a
  callback fails. The first component of the result says whether a callback was
  rejected for the undeclared \<open>req\<close>; where \<open>req\<close> resolves the sends are run at
  once.
\<close>

definition newAchievements :: "User \<Rightarrow> nat \<Rightarrow> nat \<Rightarrow> nat \<Rightarrow> string list" where
  "newAchievements user totalReports verifiedReports weatherReports =
     (if totalReports = 1 \<and> ''First Reporter'' \<notin> set (badges user)
        then [''First Reporter''] else []) @
     (if weatherReports \<ge> 10 \<and> ''Weather Watcher'' \<notin> set (badges user)
        then [''Weather Watcher''] else []) @
     (if totalReports \<ge> 100 \<and> ''Community Hero'' \<notin> set (badges user)
        then [''Community Hero''] else []) @
     (if totalReports \<ge> 20 \<and> real verifiedReports / real totalReports \<ge> 0.8
           \<and> ''Accuracy Expert'' \<notin> set (badges user)
        then [''Accuracy Expert''] else []) @
     (if streak user \<ge> 30 \<and> ''Streak Master'' \<notin> set (badges user)
        then [''Streak Master''] else [])"

definition achievementNotification :: "string \<Rightarrow> Notification" where
  "achievementNotification achievement =
     \<lparr>n_userId = 0,
      n_title = ''Achievement Unlocked!'',
      n_message = ''You earned the \"'' @ achievement @ ''\" badge! +100 points'',
      n_type = N_achievement,
      n_priority = Medium\<rparr>"

definition checkAchievements :: "Env \<Rightarrow> objid \<Rightarrow> State \<Rightarrow> bool \<times> State" where
  "checkAchievements env userId st =
     (case findUser st userId of
        None \<Rightarrow> (False, st)
      | Some user \<Rightarrow>
          (let totalReports = countDocuments (\<lambda>r. r_userId r = userId) (reports st);
               verifiedReports = countDocuments
                 (\<lambda>r. r_userId r = userId \<and> r_verified r) (reports st);
               weatherReports = countDocuments
                 (\<lambda>r. r_userId r = userId \<and> r_type r = R_weather) (reports st);
               achievements = newAchievements user totalReports verifiedReports weatherReports
           in if length achievements > 0
              then
                (let st1 = updateUser userId
                       (\<lambda>u. u\<lparr>badges := badges user @ achievements,
                               points := points user + int (length achievements) * 100\<rparr>) st
                 in if \<not> helpersResolve env then (True, st1)
                    else (False,
                          fold (\<lambda>achievement s.
                                  snd (sendPushNotification userId
                                         (achievementNotification achievement) s))
                            achievements st1))
              else (False, st)))"

definition confidenceOf :: "Report \<Rightarrow> real option" where
  "confidenceOf report = map_option ai_confidence (r_aiAnalysis report)"

text \<open>
  \<open>autoGenerateAlert\<close>: a comparison with a confidence that is not there is false
  in JavaScript, so the early return needs a confidence below 80. \<open>autoAlert\<close> is
  the document that the helper builds: \<open>t\<close> is the helper's own reading of the
  clock, \<open>tu\<close> and \<open>tc\<close> are the readings of the schema defaults. \<open>alert.save()\<close>
  throws when the schema validation or the server refuses the document, and the
  helper's catch leaves the store as it is.
\<close>

definition autoAlert :: "time \<Rightarrow> time \<Rightarrow> time \<Rightarrow> objid \<Rightarrow> alert_type \<Rightarrow> Report \<Rightarrow> Alert" where
  "autoAlert t tu tc i ty report =
     \<lparr>aid = i,
      a_type = ty,
      a_severity = r_severity report,
      a_title = ''Community Alert: '' @ r_title report,
      a_description = ''Critical '' @ report_type_name (r_type report)
         @ '' reported by community member. '' @ r_description report,
      a_coordinates = r_coordinates report,
      a_radius = 25,
      a_eta = Some ''Immediate'',
      a_duration = None,
      a_confidence = confidenceOf report,
      a_affectedPopulation = Some ''50K+'',
      a_evacuationZones = [ZoneText ''Immediate area (0-5km)''],
      a_source = ''Community Report (AI Verified)'',
      a_aiPrediction = True,
      a_active = True,
      a_updatedAt = tu,
      a_createdAt = tc,
      a_expiresAt = Some (t + 12 * 60 * 60 * 1000)\<rparr>"

definition autoGenerateAlert :: "Env \<Rightarrow> Report \<Rightarrow> State \<Rightarrow> State" where
  "autoGenerateAlert env report st =
     (if (case confidenceOf report of Some c \<Rightarrow> c < 80 | None \<Rightarrow> False) then st
      else
        (case alertTypeOfReport (r_type report) of
           None \<Rightarrow> st
         | Some ty \<Rightarrow>
             (let alert = autoAlert (helperNow env) (alertUpdatedAt env) (alertCreatedAt env)
                            (fresh_id (map aid (alerts st))) ty report
              in if alertValid alert \<and> alertAccepted env alert
                 then st\<lparr>alerts := alerts st @ [alert]\<rparr> else st)))"

definition nearbyUsers :: "Env \<Rightarrow> Report \<Rightarrow> State \<Rightarrow> User list" where
  "nearbyUsers env report st =
     filter (\<lambda>u. userGeoWithin env (r_coordinates report) (10 / 6378.1) u
                \<and> pref_community u
                \<and> uid u \<noteq> r_userId report)
       (users st)"

definition nearbyNotification :: "Report \<Rightarrow> Notification" where
  "nearbyNotification report =
     \<lparr>n_userId = 0,
      n_title = toUpperCase (severity_name (r_severity report)) @ '' Report Nearby'',
      n_message = report_type_name (r_type report) @ '' reported within 10km of your location'',
      n_type = N_community,
      n_priority = r_severity report\<rparr>"

definition notifyNearbyUsers :: "Env \<Rightarrow> Report \<Rightarrow> State \<Rightarrow> State" where
  "notifyNearbyUsers env report st =
     (if r_severity report = Low then st
      else if \<not> helpersResolve env then st
      else fold (\<lambda>user s. snd (sendPushNotification (uid user) (nearbyNotification report) s))
             (nearbyUsers env report st) st)"

section \<open>Submitting a report (POST /api/reports)\<close>

text \<open>
  The request after \<open>authenticateToken\<close> and \<open>upload.array('attachments', 5)\<close>. The
  location is absent, a string that \<open>JSON.parse\<close> refuses, or an object whose fields
  may be missing.
\<close>

record ParsedLocation =
  lat :: "real option"
  lng :: "real option"
  accuracy :: "string option"
  address :: "string option"

datatype location_input = LocAbsent | LocMalformed | LocParsed ParsedLocation

record SubmitRequest =
  q_userId :: objid
  q_type :: report_type
  q_severity :: severity
  q_description :: string
  q_location :: location_input
  q_title :: "string option"
  q_files :: "string list"

record SubmitResult =
  s_report :: Report
  pointsEarned :: int
  newTotal :: int

text \<open>\<open>!x\<close> on a number that may be missing: true for a missing value and for 0.\<close>

definition falsy :: "real option \<Rightarrow> bool" where
  "falsy x = (case x of None \<Rightarrow> True | Some v \<Rightarrow> v = 0)"

text \<open>
  \<open>newReport\<close> and \<open>newAlert\<close> are built after the check \<open>falsy\<close> has found both
  coordinates present, so \<open>the\<close> reads a value that is there.
\<close>

definition reportTitle :: "SubmitRequest \<Rightarrow> string" where
  "reportTitle req =
     (case q_title req of
        Some t \<Rightarrow> if t \<noteq> [] then t else capitalize (report_type_name (q_type req)) @ '' Report''
      | None \<Rightarrow> capitalize (report_type_name (q_type req)) @ '' Report'')"

definition newReport :: "time \<Rightarrow> objid \<Rightarrow> SubmitRequest \<Rightarrow> ParsedLocation \<Rightarrow> Report" where
  "newReport t i req loc =
     \<lparr>rid = i,
      r_userId = q_userId req,
      r_type = q_type req,
      r_severity = q_severity req,
      r_title = reportTitle req,
      r_description = q_description req,
      r_coordinates = (the (lng loc), the (lat loc)),
      r_accuracy = accuracy loc,
      r_address = address loc,
      r_attachments = q_files req,
      r_verified = False,
      r_aiAnalysis = None,
      votes_helpful = 0,
      votes_notHelpful = 0,
      voters = [],
      r_createdAt = t\<rparr>"

text \<open>
  The part of the handler after the first \<open>report.save()\<close> has succeeded; \<open>st\<close> is the
  store before the report was added. \<open>analysed\<close> is the report in memory after the AI
  call, and \<open>awarded\<close> is the store after the second save and the \<open>$inc\<close> of the
  author's points. When a callback of \<open>checkAchievements\<close> has
  been rejected, the process ends while the handler waits for its next read or
  write, and the store stays as \<open>checkAchievements\<close> left it.
\<close>

definition analysed :: "Env \<Rightarrow> Report \<Rightarrow> Report" where
  "analysed env report0 =
     (case analyzeReport env report0 of
        None \<Rightarrow> report0
      | Some ai \<Rightarrow> report0\<lparr>r_aiAnalysis := Some ai\<rparr>)"

definition awarded :: "Env \<Rightarrow> SubmitRequest \<Rightarrow> Report \<Rightarrow> State \<Rightarrow> State" where
  "awarded env req report0 st =
     (let report = analysed env report0;
          stored = (if reportValid report \<and> reportAccepted env report then report else report0);
          st1 = st\<lparr>reports := reports st @ [stored]\<rparr>;
          total = totalPoints (q_type req) (q_severity req) (q_files req)
      in updateUser (q_userId req)
           (\<lambda>u. u\<lparr>points := points u + total, lastActive := now env\<rparr>) st1)"

definition afterSave :: "Env \<Rightarrow> SubmitRequest \<Rightarrow> Report \<Rightarrow> State \<Rightarrow> SubmitResult reply \<times> State" where
  "afterSave env req report0 st =
     (let report = analysed env report0;
          total = totalPoints (q_type req) (q_severity req) (q_files req);
          st2 = awarded env req report0 st;
          user = findUser st2 (q_userId req);
          st3 = checkAndUpdateStreak (today env) (q_userId req) st2;
          rejected = fst (checkAchievements env (q_userId req) st3);
          st4 = snd (checkAchievements env (q_userId req) st3);
          st5 = (if q_severity req = Critical
                    \<and> (case confidenceOf report of Some c \<Rightarrow> c > 80 | None \<Rightarrow> False)
                 then autoGenerateAlert env report st4 else st4);
          st6 = notifyNearbyUsers env report st5
      in if rejected then (NoReply, st4)
         else
           (case user of
              None \<Rightarrow> (ServerError, st6)
            | Some u \<Rightarrow>
                (Reply 201 \<lparr>s_report = report, pointsEarned = total, newTotal = points u\<rparr>,
                 st6)))"

definition submit :: "Env \<Rightarrow> SubmitRequest \<Rightarrow> State \<Rightarrow> SubmitResult reply \<times> State" where
  "submit env req st =
     (if length (q_files req) > 5 then (ServerError, st)
      else
        (case q_location req of
           LocMalformed \<Rightarrow> (ServerError, st)
         | LocAbsent \<Rightarrow> (ErrorReply 400 ''Valid location coordinates required'', st)
         | LocParsed loc \<Rightarrow>
             if falsy (lat loc) \<or> falsy (lng loc)
             then (ErrorReply 400 ''Valid location coordinates required'', st)
             else
               (let report0 = newReport (reportCreatedAt env)
                                (fresh_id (map rid (reports st))) req loc
                in if \<not> (reportValid report0 \<and> reportAccepted env report0)
                   then (ServerError, st)
                   else afterSave env req report0 st)))"

section \<open>Voting on a report (POST /api/reports/:id/vote)\<close>

record VoteResult =
  v_helpful :: int
  v_notHelpful :: int
  v_voters :: "objid list"

definition castVote :: "objid \<Rightarrow> bool \<Rightarrow> Report \<Rightarrow> Report" where
  "castVote userId helpful report =
     (if helpful then report\<lparr>votes_helpful := votes_helpful report + 1\<rparr>
      else report\<lparr>votes_notHelpful := votes_notHelpful report + 1\<rparr>)
       \<lparr>voters := voters report @ [userId]\<rparr>"

definition vote :: "objid \<Rightarrow> objid \<Rightarrow> bool \<Rightarrow> State \<Rightarrow> VoteResult reply \<times> State" where
  "vote reportId userId helpful st =
     (case findReport st reportId of
        None \<Rightarrow> (ErrorReply 404 ''Report not found'', st)
      | Some report \<Rightarrow>
          if userId \<in> set (voters report)
          then (ErrorReply 400 ''You have already voted on this report'', st)
          else
            (let report' = castVote userId helpful report;
                 st1 = updateReport reportId (\<lambda>_. report') st;
                 st2 = (if helpful
                        then updateUser (r_userId report) (\<lambda>u. u\<lparr>points := points u + 2\<rparr>) st1
                        else st1)
             in (Reply 200 \<lparr>v_helpful = votes_helpful report',
                             v_notHelpful = votes_notHelpful report',
                             v_voters = voters report'\<rparr>, st2)))"

section \<open>Alert routes (backend/routes/alerts.js)\<close>

record Coordinates =
  c_lat :: "real option"
  c_lng :: "real option"

text \<open>
  The body of POST /api/alerts. The handler reads the fields below except
  \<open>b_duration\<close>, which a caller may send and the handler does not take from the body.
\<close>

record AlertRequest =
  b_type :: alert_type
  b_severity :: severity
  b_title :: string
  b_description :: string
  b_coordinates :: "Coordinates option"
  b_radius :: "real option"
  b_eta :: "string option"
  b_confidence :: "real option"
  b_affectedPopulation :: "string option"
  b_evacuationZones :: "zone list"
  b_source :: string
  b_aiPrediction :: "bool option"
  b_duration :: "string option"

definition orDefault :: "'a option \<Rightarrow> 'a \<Rightarrow> 'a" where
  "orDefault v d = (case v of Some x \<Rightarrow> x | None \<Rightarrow> d)"

text \<open>
  The document of the create route: \<open>t\<close> is the route's reading of the clock in
  \<open>Date.now() + 24 * 60 * 60 * 1000\<close>, \<open>tu\<close> and \<open>tc\<close> are the readings of the
  schema defaults of \<open>updatedAt\<close> and \<open>createdAt\<close>.
\<close>

definition newAlert ::
  "time \<Rightarrow> time \<Rightarrow> time \<Rightarrow> objid \<Rightarrow> AlertRequest \<Rightarrow> Coordinates \<Rightarrow> Alert" where
  "newAlert t tu tc i body c =
     \<lparr>aid = i,
      a_type = b_type body,
      a_severity = b_severity body,
      a_title = b_title body,
      a_description = b_description body,
      a_coordinates = (the (c_lng c), the (c_lat c)),
      a_radius = orDefault (b_radius body) 50,
      a_eta = b_eta body,
      a_duration = None,
      a_confidence = b_confidence body,
      a_affectedPopulation = b_affectedPopulation body,
      a_evacuationZones = b_evacuationZones body,
      a_source = b_source body,
      a_aiPrediction = orDefault (b_aiPrediction body) False,
      a_active = True,
      a_updatedAt = tu,
      a_createdAt = tc,
      a_expiresAt = Some (t + 24 * 60 * 60 * 1000)\<rparr>"

definition affectedUsers :: "Env \<Rightarrow> Alert \<Rightarrow> State \<Rightarrow> User list" where
  "affectedUsers env alert st =
     filter (\<lambda>u. userGeoWithin env (a_coordinates alert) (a_radius alert / 6378.1) u
                \<and> pref_push u)
       (users st)"

definition alertNotification :: "Alert \<Rightarrow> Notification" where
  "alertNotification alert =
     \<lparr>n_userId = 0,
      n_title = toUpperCase (severity_name (a_severity alert)) @ '' ALERT: '' @ a_title alert,
      n_message = a_description alert,
      n_type = N_alert,
      n_priority = a_severity alert\<rparr>"

definition notifyAffectedUsers :: "Env \<Rightarrow> Alert \<Rightarrow> State \<Rightarrow> State" where
  "notifyAffectedUsers env alert st =
     (if \<not> helpersResolve env then st
      else fold (\<lambda>user s. snd (sendPushNotification (uid user) (alertNotification alert) s))
             (affectedUsers env alert st) st)"

definition createAlert :: "Env \<Rightarrow> AlertRequest \<Rightarrow> State \<Rightarrow> Alert reply \<times> State" where
  "createAlert env body st =
     (case b_coordinates body of
        None \<Rightarrow> (ErrorReply 400 ''Valid coordinates required'', st)
      | Some c \<Rightarrow>
          if falsy (c_lat c) \<or> falsy (c_lng c)
          then (ErrorReply 400 ''Valid coordinates required'', st)
          else
            (let alert = newAlert (now env) (alertUpdatedAt env) (alertCreatedAt env)
                           (fresh_id (map aid (alerts st))) body c
             in if \<not> (alertValid alert \<and> alertAccepted env alert) then (ServerError, st)
                else (Reply 201 alert,
                      notifyAffectedUsers env alert (st\<lparr>alerts := alerts st @ [alert]\<rparr>))))"







text \<open>
  GET /api/alerts. A query parameter that is absent or empty adds no filter. The sort
  is \<open>{ severity: -1, createdAt: -1 }\<close>: severity is a string, so the descending
  order is medium, low, high, critical; the order among equal keys is the store's.
  The response adds fields to each alert and removes none. The TTL index of the
  schema lets the store delete an alert after its \<open>expiresAt\<close>; the query does not
  rely on it.
\<close>

record AlertQuery =
  aq_lat :: "real option"
  aq_lng :: "real option"
  aq_radius :: real
  aq_severity :: "severity option"
  aq_type :: "alert_type option"

definition severity_order :: "severity \<Rightarrow> int" where
  "severity_order s = (case s of Critical \<Rightarrow> 0 | High \<Rightarrow> 1 | Low \<Rightarrow> 2 | Medium \<Rightarrow> 3)"

definition matchesQuery :: "Env \<Rightarrow> AlertQuery \<Rightarrow> Alert \<Rightarrow> bool" where
  "matchesQuery env q a =
     (a_active a
      \<and> (case a_expiresAt a of Some e \<Rightarrow> e > now env | None \<Rightarrow> True)
      \<and> (case (aq_lat q, aq_lng q) of
           (Some la, Some lo) \<Rightarrow> alertGeoWithin env (lo, la) (aq_radius q / 6378.1) a
         | _ \<Rightarrow> True)
      \<and> (case aq_severity q of Some s \<Rightarrow> a_severity a = s | None \<Rightarrow> True)
      \<and> (case aq_type q of Some ty \<Rightarrow> a_type a = ty | None \<Rightarrow> True))"

definition sortAlerts :: "Alert list \<Rightarrow> Alert list" where
  "sortAlerts xs =
     sort_key (\<lambda>a. - severity_order (a_severity a)) (sort_key (\<lambda>a. - a_createdAt a) xs)"

definition getAlerts :: "Env \<Rightarrow> AlertQuery \<Rightarrow> State \<Rightarrow> Alert list" where
  "getAlerts env q st = take 50 (sortAlerts (filter (matchesQuery env q) (alerts st)))"

definition noFilter :: AlertQuery where
  "noFilter = \<lparr>aq_lat = None, aq_lng = None, aq_radius = 100,
               aq_severity = None, aq_type = None\<rparr>"

section \<open>The condition of the specification on an active alert\<close>

text \<open>
  The specification's words for the alerts that an active-alerts query returns at
  time \<open>t\<close>: the flag is set and \<open>expiresAt\<close> is strictly later than \<open>t\<close>. The
  query of the route is \<open>matchesQuery\<close> above.
\<close>

definition spec_activeUnexpired :: "time \<Rightarrow> Alert \<Rightarrow> bool" where
  "spec_activeUnexpired t a = (a_active a \<and> (case a_expiresAt a of Some e \<Rightarrow> e > t | None \<Rightarrow> False))"

section \<open>Sample data\<close>

definition sampleAnalysis :: "real \<Rightarrow> AiAnalysis" where
  "sampleAnalysis c = \<lparr>ai_severity = 90, ai_confidence = c, ai_tags = [], ai_credibility = 1\<rparr>"

text \<open>
  A server that takes every document, an oracle that answers with confidence 85, and
  helpers whose identifiers resolve.
\<close>

definition sampleEnv :: Env where
  "sampleEnv =
     \<lparr>now = 1000, helperNow = 1000, today = 0,
      reportCreatedAt = 1000, alertUpdatedAt = 1000, alertCreatedAt = 1000,
      analyzeReport = (\<lambda>_. Some (sampleAnalysis 85)),
      reportAccepted = (\<lambda>_. True),
      alertAccepted = (\<lambda>_. True),
      userGeoWithin = (\<lambda>_ _ _. True),
      alertGeoWithin = (\<lambda>_ _ _. True),
      helpersResolve = True\<rparr>"

definition sampleUser :: "objid \<Rightarrow> User" where
  "sampleUser i =
     \<lparr>uid = i, name = ''Asha'', points = 100, level = ''Coastal Recruit'', badges = [],
      pref_push = True, pref_community = True, streak = 4, lastActive = 0\<rparr>"

definition sampleState :: State where
  "sampleState =
     \<lparr>users = [sampleUser 7, sampleUser 8], reports = [], alerts = [], notifications = []\<rparr>"

definition sampleParsed :: "real \<Rightarrow> real \<Rightarrow> ParsedLocation" where
  "sampleParsed la lo = \<lparr>lat = Some la, lng = Some lo, accuracy = None, address = None\<rparr>"

definition sampleLocation :: "real \<Rightarrow> real \<Rightarrow> location_input" where
  "sampleLocation la lo = LocParsed (sampleParsed la lo)"

definition sampleRequest :: SubmitRequest where
  "sampleRequest =
     \<lparr>q_userId = 7, q_type = R_weather, q_severity = High,
      q_description = ''High waves at the pier'',
      q_location = sampleLocation 12.5 80.25,
      q_title = None, q_files = [''a.jpg'', ''b.jpg'', ''c.jpg'']\<rparr>"

definition sampleReport :: "objid \<Rightarrow> objid \<Rightarrow> time \<Rightarrow> Report" where
  "sampleReport i author t =
     \<lparr>rid = i, r_userId = author, r_type = R_tsunami, r_severity = Critical,
      r_title = ''Tsunami Report'', r_description = ''Sea is receding fast'',
      r_coordinates = (80.25, 12.5), r_accuracy = None, r_address = None,
      r_attachments = [], r_verified = False, r_aiAnalysis = Some (sampleAnalysis 85),
      votes_helpful = 0, votes_notHelpful = 0, voters = [], r_createdAt = t\<rparr>"

definition streakState :: State where
  "streakState = sampleState\<lparr>reports := [sampleReport 3 7 (- 5000), sampleReport 4 7 500]\<rparr>"

definition votedState :: State where
  "votedState = sampleState\<lparr>reports := [(sampleReport 3 7 500)\<lparr>voters := [8]\<rparr>]\<rparr>"

definition nearbyState :: State where
  "nearbyState = sampleState\<lparr>users := [sampleUser 7, sampleUser 8,
                    (sampleUser 9)\<lparr>pref_community := False\<rparr>]\<rparr>"

definition tsunamiRequest :: SubmitRequest where
  "tsunamiRequest = sampleRequest\<lparr>q_type := R_tsunami, q_severity := Critical\<rparr>"

definition sampleCoordinates :: "real \<Rightarrow> real \<Rightarrow> Coordinates" where
  "sampleCoordinates la lo = \<lparr>c_lat = Some la, c_lng = Some lo\<rparr>"

definition sampleAlertRequest :: AlertRequest where
  "sampleAlertRequest =
     \<lparr>b_type = A_cyclone, b_severity = High, b_title = ''Cyclone warning'',
      b_description = ''Landfall expected near the coast'',
      b_coordinates = Some (sampleCoordinates 13 80.5),
      b_radius = Some 75, b_eta = Some ''6 hours'', b_confidence = Some 90,
      b_affectedPopulation = None, b_evacuationZones = [], b_source = ''IMD'',
      b_aiPrediction = None, b_duration = None\<rparr>"

definition sampleAlert :: "objid \<Rightarrow> time \<Rightarrow> Alert" where
  "sampleAlert i t = newAlert t t t i sampleAlertRequest (sampleCoordinates 13 80.5)"


definition alertState :: State where
  "alertState = sampleState\<lparr>alerts := [sampleAlert 5 0]\<rparr>"

definition noExpiryState :: State where
  "noExpiryState = sampleState\<lparr>alerts := [(sampleAlert 5 0)\<lparr>a_expiresAt := None\<rparr>]\<rparr>"

definition crowdedState :: State where
  "crowdedState = sampleState\<lparr>alerts := map (\<lambda>i. sampleAlert i 0) [2..<53]\<rparr>"

text \<open>
  The repository as it runs: the server's \<open>2dsphere\<close> indexes refuse a point whose
  longitude is outside [-180, 180] or whose latitude is outside [-90, 90], the
  identifiers of the helpers do not resolve, and each reading of the clock is a
  little later than the one before.
\<close>

definition withinGeoBounds :: "real \<times> real \<Rightarrow> bool" where
  "withinGeoBounds p = (- 180 \<le> fst p \<and> fst p \<le> 180 \<and> - 90 \<le> snd p \<and> snd p \<le> 90)"

definition repositoryEnv :: Env where
  "repositoryEnv =
     \<lparr>now = 1000, helperNow = 1040, today = 0,
      reportCreatedAt = 990, alertUpdatedAt = 1002, alertCreatedAt = 1003,
      analyzeReport = (\<lambda>_. Some (sampleAnalysis 85)),
      reportAccepted = (\<lambda>r. withinGeoBounds (r_coordinates r)),
      alertAccepted = (\<lambda>a. withinGeoBounds (a_coordinates a)),
      userGeoWithin = (\<lambda>_ _ _. True),
      alertGeoWithin = (\<lambda>_ _ _. True),
      helpersResolve = False\<rparr>"

text \<open>The author of the sample requests has a report already.\<close>

definition reportedState :: State where
  "reportedState = sampleState\<lparr>reports := [(sampleReport 3 7 500)\<lparr>r_type := R_other\<rparr>]\<rparr>"

section \<open>Facts about the store's operations\<close>

lemma find_update_first:
  "(\<And>x. P x \<Longrightarrow> P (f x)) \<Longrightarrow> find P (update_first P f xs) = map_option f (find P xs)"
  by (induction xs) auto

lemma findUser_updateUser:
  "(\<And>u. uid (f u) = uid u) \<Longrightarrow> findUser (updateUser i f st) i = map_option f (findUser st i)"
  by (simp add: findUser_def updateUser_def find_update_first)

lemma findUser_reports [simp]: "findUser (st\<lparr>reports := rs\<rparr>) i = findUser st i"
  by (simp add: findUser_def)

lemma reports_updateUser [simp]: "reports (updateUser i f st) = reports st"
  by (simp add: updateUser_def)

lemma alerts_updateUser [simp]: "alerts (updateUser i f st) = alerts st"
  by (simp add: updateUser_def)

lemma notifications_updateUser [simp]: "notifications (updateUser i f st) = notifications st"
  by (simp add: updateUser_def)

lemma reports_checkAndUpdateStreak [simp]: "reports (checkAndUpdateStreak t i st) = reports st"
  by (simp add: checkAndUpdateStreak_def Let_def split: option.splits)

lemma alerts_checkAndUpdateStreak [simp]: "alerts (checkAndUpdateStreak t i st) = alerts st"
  by (simp add: checkAndUpdateStreak_def Let_def split: option.splits)

lemma reports_autoGenerateAlert [simp]: "reports (autoGenerateAlert env r st) = reports st"
  by (simp add: autoGenerateAlert_def Let_def split: option.splits)

lemma users_autoGenerateAlert [simp]: "users (autoGenerateAlert env r st) = users st"
  by (simp add: autoGenerateAlert_def Let_def split: option.splits)

lemma sendPush_frame [simp]:
  "reports (snd (sendPushNotification i n st)) = reports st"
  "alerts (snd (sendPushNotification i n st)) = alerts st"
  "users (snd (sendPushNotification i n st)) = users st"
  by (simp_all add: sendPushNotification_def split: option.splits)

lemma fold_sendPush_frame:
  "reports (fold (\<lambda>x s. snd (sendPushNotification (f x) (g x) s)) xs st) = reports st
   \<and> alerts (fold (\<lambda>x s. snd (sendPushNotification (f x) (g x) s)) xs st) = alerts st
   \<and> users (fold (\<lambda>x s. snd (sendPushNotification (f x) (g x) s)) xs st) = users st"
  by (induction xs arbitrary: st) simp_all

lemma reports_checkAchievements [simp]:
  "reports (snd (checkAchievements env i st)) = reports st"
  by (simp add: checkAchievements_def Let_def fold_sendPush_frame split: option.splits)

lemma alerts_checkAchievements [simp]:
  "alerts (snd (checkAchievements env i st)) = alerts st"
  by (simp add: checkAchievements_def Let_def fold_sendPush_frame split: option.splits)

lemma notifyNearbyUsers_frame [simp]:
  "reports (notifyNearbyUsers env r st) = reports st"
  "alerts (notifyNearbyUsers env r st) = alerts st"
  "users (notifyNearbyUsers env r st) = users st"
  by (simp_all add: notifyNearbyUsers_def fold_sendPush_frame)

section \<open>A zero coordinate counts as missing\<close>

text \<open>
  C9. A submission whose latitude or longitude is the number 0 is answered with 400
  and the message \<open>Valid location coordinates required\<close>, and the store is left as
  it was: no report is persisted.
\<close>

theorem submit_zero_coordinate_rejected:
  assumes "length (q_files req) \<le> 5"
    and "q_location req = LocParsed loc"
    and "lat loc = Some 0 \<or> lng loc = Some 0"
  shows "submit env req st = (ErrorReply 400 ''Valid location coordinates required'', st)"
  using assms by (auto simp: submit_def falsy_def)

theorem submit_zero_coordinate_rejected_witness:
  "submit sampleEnv (sampleRequest\<lparr>q_location := sampleLocation 0 80.25\<rparr>) sampleState
     = (ErrorReply 400 ''Valid location coordinates required'', sampleState)"
proof -
  have h1: "length (q_files (sampleRequest\<lparr>q_location := sampleLocation 0 80.25\<rparr>)) \<le> 5"
    by (simp add: sampleRequest_def)
  have h2: "q_location (sampleRequest\<lparr>q_location := sampleLocation 0 80.25\<rparr>)
              = LocParsed \<lparr>lat = Some 0, lng = Some 80.25, accuracy = None, address = None\<rparr>"
    by (simp add: sampleLocation_def sampleParsed_def)
  have h3: "lat \<lparr>lat = Some 0, lng = Some 80.25, accuracy = None, address = None\<rparr> = Some 0
          \<or> lng \<lparr>lat = Some (0::real), lng = Some 80.25, accuracy = None, address = None\<rparr> = Some 0"
    by simp
  show ?thesis
    by (rule submit_zero_coordinate_rejected [OF h1 h2 h3])
qed

lemma countDocuments_pos: "countDocuments P xs > 0 \<longleftrightarrow> (\<exists>x \<in> set xs. P x)"
  by (simp add: countDocuments_def filter_empty_conv)

lemma countDocuments_zero: "countDocuments P xs = 0 \<longleftrightarrow> \<not> (\<exists>x \<in> set xs. P x)"
  by (simp add: countDocuments_def filter_empty_conv)

section \<open>Streak\<close>

text \<open>
  C6. For a user of the store, one run of \<open>checkAndUpdateStreak\<close>: with a report
  today and a report yesterday the streak grows by exactly 1; with a report today and
  none yesterday the streak becomes 1 whatever it was; with no report today the store
  is unchanged.
\<close>

theorem streak_update:
  assumes "findUser st userId = Some u"
  shows "((\<exists>r \<in> set (reports st). r_userId r = userId \<and> midnight \<le> r_createdAt r)
          \<and> (\<exists>r \<in> set (reports st). r_userId r = userId
                \<and> midnight - 86400000 \<le> r_createdAt r \<and> r_createdAt r < midnight)
          \<longrightarrow> findUser (checkAndUpdateStreak midnight userId st) userId
                = Some (u\<lparr>streak := streak u + 1\<rparr>))
       \<and> ((\<exists>r \<in> set (reports st). r_userId r = userId \<and> midnight \<le> r_createdAt r)
          \<and> \<not> (\<exists>r \<in> set (reports st). r_userId r = userId
                \<and> midnight - 86400000 \<le> r_createdAt r \<and> r_createdAt r < midnight)
          \<longrightarrow> findUser (checkAndUpdateStreak midnight userId st) userId
                = Some (u\<lparr>streak := 1\<rparr>))
       \<and> (\<not> (\<exists>r \<in> set (reports st). r_userId r = userId \<and> midnight \<le> r_createdAt r)
          \<longrightarrow> checkAndUpdateStreak midnight userId st = st)"
proof -
  have d: "day_ms = 86400000" by (simp add: day_ms_def)
  show ?thesis
  proof (cases "\<exists>r \<in> set (reports st). r_userId r = userId \<and> midnight \<le> r_createdAt r")
    case False
    then have "countDocuments (\<lambda>r. r_userId r = userId \<and> midnight \<le> r_createdAt r) (reports st) = 0"
      by (simp only: countDocuments_zero not_False_eq_True)
    then have "checkAndUpdateStreak midnight userId st = st"
      by (simp add: checkAndUpdateStreak_def Let_def)
    with False show ?thesis by blast
  next
    case t: True
    then have tc: "countDocuments (\<lambda>r. r_userId r = userId \<and> midnight \<le> r_createdAt r) (reports st) > 0"
      by (simp only: countDocuments_pos)
    show ?thesis
    proof (cases "\<exists>r \<in> set (reports st). r_userId r = userId
                \<and> midnight - 86400000 \<le> r_createdAt r \<and> r_createdAt r < midnight")
      case True
      then have "countDocuments (\<lambda>r. r_userId r = userId
                \<and> midnight - 86400000 \<le> r_createdAt r \<and> r_createdAt r < midnight) (reports st) > 0"
        by (simp only: countDocuments_pos)
      then have "findUser (checkAndUpdateStreak midnight userId st) userId
                = Some (u\<lparr>streak := streak u + 1\<rparr>)"
        using tc assms by (simp add: checkAndUpdateStreak_def Let_def d findUser_updateUser)
      with t True show ?thesis by blast
    next
      case False
      then have "countDocuments (\<lambda>r. r_userId r = userId
                \<and> midnight - 86400000 \<le> r_createdAt r \<and> r_createdAt r < midnight) (reports st) = 0"
        by (simp only: countDocuments_zero not_False_eq_True)
      then have "findUser (checkAndUpdateStreak midnight userId st) userId
                = Some (u\<lparr>streak := 1\<rparr>)"
        using tc assms by (simp add: checkAndUpdateStreak_def Let_def d findUser_updateUser)
      with t False show ?thesis by blast
    qed
  qed
qed

theorem streak_update_witness:
  "findUser streakState 7 = Some (sampleUser 7)
   \<and> findUser (checkAndUpdateStreak 0 7 streakState) 7 = Some ((sampleUser 7)\<lparr>streak := 5\<rparr>)
   \<and> findUser (checkAndUpdateStreak 0 7 (streakState\<lparr>reports := [sampleReport 4 7 500]\<rparr>)) 7
        = Some ((sampleUser 7)\<lparr>streak := 1\<rparr>)
   \<and> checkAndUpdateStreak 0 7 (streakState\<lparr>reports := [sampleReport 3 7 (- 5000)]\<rparr>)
        = streakState\<lparr>reports := [sampleReport 3 7 (- 5000)]\<rparr>"
proof -
  have h: "findUser streakState 7 = Some (sampleUser 7)"
    by (simp add: findUser_def streakState_def sampleState_def sampleUser_def)
  have h2: "findUser (streakState\<lparr>reports := [sampleReport 4 7 500]\<rparr>) 7 = Some (sampleUser 7)"
    using h by simp
  have h3: "findUser (streakState\<lparr>reports := [sampleReport 3 7 (- 5000)]\<rparr>) 7 = Some (sampleUser 7)"
    using h by simp
  have s: "\<And>i. streak (sampleUser i) = 4" by (simp add: sampleUser_def)
  show ?thesis
    using h streak_update [OF h, of 0] streak_update [OF h2, of 0] streak_update [OF h3, of 0]
    by (simp add: streakState_def sampleReport_def s)
qed



lemma findReport_updateReport:
  "(\<And>r. rid (f r) = rid r) \<Longrightarrow>
     findReport (updateReport i f st) i = map_option f (findReport st i)"
  by (simp add: findReport_def updateReport_def find_update_first)

lemma findReport_rid: "findReport st i = Some r \<Longrightarrow> rid r = i"
  by (auto simp: findReport_def find_Some_iff)

lemma findReport_updateUser [simp]: "findReport (updateUser i f st) j = findReport st j"
  by (simp add: findReport_def)

lemma findUser_updateReport [simp]: "findUser (updateReport i f st) j = findUser st j"
  by (simp add: findUser_def updateReport_def)

lemma find_update_first_const:
  "P y \<Longrightarrow> find P (update_first P (\<lambda>_. y) xs) = map_option (\<lambda>_. y) (find P xs)"
  by (induction xs) auto

section \<open>Voting\<close>

text \<open>
  C7. A vote by a user who is already among the report's voters is answered with the
  400 conflict and the store is unchanged. Otherwise the matching tally grows by 1,
  the other tally stays, the user is appended to the voters, and the report's author
  gets 2 points for a helpful vote and none for the other.
\<close>

theorem vote_at_most_once:
  assumes "findReport st reportId = Some report"
  shows "(userId \<in> set (voters report) \<longrightarrow>
            vote reportId userId helpful st
              = (ErrorReply 400 ''You have already voted on this report'', st))
       \<and> (userId \<notin> set (voters report) \<longrightarrow>
            findReport (snd (vote reportId userId helpful st)) reportId
              = Some (report\<lparr>votes_helpful := votes_helpful report + (if helpful then 1 else 0),
                             votes_notHelpful :=
                               votes_notHelpful report + (if helpful then 0 else 1),
                             voters := voters report @ [userId]\<rparr>)
            \<and> findUser (snd (vote reportId userId helpful st)) (r_userId report)
              = map_option (\<lambda>a. a\<lparr>points := points a + (if helpful then 2 else 0)\<rparr>)
                  (findUser st (r_userId report)))"
proof -
  have i: "rid report = reportId" using assms by (rule findReport_rid)
  have r: "findReport (updateReport reportId (\<lambda>_. castVote userId helpful report) st) reportId
             = Some (castVote userId helpful report)"
    using assms i
    by (simp add: findReport_def updateReport_def find_update_first_const castVote_def)
  have u: "map_option (\<lambda>a. a\<lparr>points := points a\<rparr>) (findUser st (r_userId report))
             = findUser st (r_userId report)"
    by (cases "findUser st (r_userId report)") simp_all
  have c: "castVote userId helpful report
             = report\<lparr>votes_helpful := votes_helpful report + (if helpful then 1 else 0),
                      votes_notHelpful := votes_notHelpful report + (if helpful then 0 else 1),
                      voters := voters report @ [userId]\<rparr>"
    by (simp add: castVote_def)
  show ?thesis
  proof (cases helpful)
    case True
    then show ?thesis
      using assms r c by (simp add: vote_def Let_def findUser_updateUser)
  next
    case False
    then show ?thesis
      using assms r c u by (simp add: vote_def Let_def)
  qed
qed

theorem vote_at_most_once_witness:
  "findReport votedState 3 = Some ((sampleReport 3 7 500)\<lparr>voters := [8]\<rparr>)
   \<and> vote 3 8 True votedState
        = (ErrorReply 400 ''You have already voted on this report'', votedState)
   \<and> findReport (snd (vote 3 9 True votedState)) 3
        = Some ((sampleReport 3 7 500)\<lparr>votes_helpful := 1, voters := [8, 9]\<rparr>)
   \<and> findUser (snd (vote 3 9 True votedState)) 7 = Some ((sampleUser 7)\<lparr>points := 102\<rparr>)
   \<and> findUser (snd (vote 3 9 False votedState)) 7 = Some (sampleUser 7)"
proof -
  have h: "findReport votedState 3 = Some ((sampleReport 3 7 500)\<lparr>voters := [8]\<rparr>)"
    by (simp add: findReport_def votedState_def sampleReport_def)
  have u: "findUser votedState 7 = Some (sampleUser 7)"
    by (simp add: findUser_def votedState_def sampleState_def sampleUser_def)
  have p: "\<And>i. points (sampleUser i) = 100" by (simp add: sampleUser_def)
  have r: "\<And>i a t. r_userId (sampleReport i a t) = a" "\<And>i a t. votes_helpful (sampleReport i a t) = 0"
    "\<And>i a t. votes_notHelpful (sampleReport i a t) = 0"
    by (simp_all add: sampleReport_def)
  show ?thesis
    using h vote_at_most_once [OF h, of 8 True] vote_at_most_once [OF h, of 9 True]
      vote_at_most_once [OF h, of 9 False]
    by (simp add: u p r)
qed


lemma sendPush_notifications:
  "\<exists>one. notifications (snd (sendPushNotification i n st)) = notifications st @ one
         \<and> n_userId ` set one \<subseteq> {i}"
proof (cases "\<exists>user. findUser st i = Some user \<and> pref_push user")
  case True
  then have "notifications (snd (sendPushNotification i n st))
               = notifications st @ [n\<lparr>n_userId := i\<rparr>]"
    by (auto simp: sendPushNotification_def)
  then show ?thesis by (intro exI [of _ "[n\<lparr>n_userId := i\<rparr>]"]) simp
next
  case False
  then have "notifications (snd (sendPushNotification i n st)) = notifications st @ []"
    by (cases "findUser st i") (simp_all add: sendPushNotification_def)
  then show ?thesis by (intro exI [of _ "[]"]) simp
qed

lemma fold_sendPush_notifications:
  "\<exists>new. notifications (fold (\<lambda>user s. snd (sendPushNotification (uid user) n s)) us st)
            = notifications st @ new
        \<and> n_userId ` set new \<subseteq> uid ` set us"
proof (induction us arbitrary: st)
  case Nil
  then show ?case by simp
next
  case (Cons a us)
  obtain new where new:
    "notifications (fold (\<lambda>user s. snd (sendPushNotification (uid user) n s)) us
        (snd (sendPushNotification (uid a) n st)))
       = notifications (snd (sendPushNotification (uid a) n st)) @ new"
    "n_userId ` set new \<subseteq> uid ` set us"
    using Cons.IH by blast
  obtain one where one:
    "notifications (snd (sendPushNotification (uid a) n st)) = notifications st @ one"
    "n_userId ` set one \<subseteq> {uid a}"
    using sendPush_notifications by blast
  have "notifications (fold (\<lambda>user s. snd (sendPushNotification (uid user) n s)) (a # us) st)
          = notifications st @ (one @ new)"
    using new(1) one(1) by simp
  moreover have "n_userId ` set (one @ new) \<subseteq> uid ` set (a # us)"
    using new(2) one(2) by auto
  ultimately show ?case by (intro exI [of _ "one @ new"]) simp
qed

section \<open>Nearby notification\<close>

text \<open>
  C10. The users selected by \<open>notifyNearbyUsers\<close> are users of the store within
  10 km (as the store evaluates the clause) who opted into community notifications and
  are not the author; every notification the helper stores is for one of them, none is
  for the author, and a report of low severity notifies nobody.
\<close>

theorem nearby_notification_excludes_author:
  "(\<forall>u \<in> set (nearbyUsers env report st).
       uid u \<noteq> r_userId report \<and> pref_community u
       \<and> userGeoWithin env (r_coordinates report) (10 / 6378.1) u \<and> u \<in> set (users st))
   \<and> (\<exists>new. notifications (notifyNearbyUsers env report st) = notifications st @ new
         \<and> n_userId ` set new \<subseteq> uid ` set (nearbyUsers env report st)
         \<and> r_userId report \<notin> n_userId ` set new)
   \<and> (r_severity report = Low \<longrightarrow> notifyNearbyUsers env report st = st)"
proof -
  have q: "\<forall>u \<in> set (nearbyUsers env report st).
       uid u \<noteq> r_userId report \<and> pref_community u
       \<and> userGeoWithin env (r_coordinates report) (10 / 6378.1) u \<and> u \<in> set (users st)"
    unfolding nearbyUsers_def by simp
  have a: "r_userId report \<notin> uid ` set (nearbyUsers env report st)"
    unfolding nearbyUsers_def by auto
  have n: "\<exists>new. notifications (notifyNearbyUsers env report st) = notifications st @ new
         \<and> n_userId ` set new \<subseteq> uid ` set (nearbyUsers env report st)"
  proof (cases "r_severity report = Low \<or> \<not> helpersResolve env")
    case True
    then have "notifyNearbyUsers env report st = st"
      unfolding notifyNearbyUsers_def by auto
    then show ?thesis by simp
  next
    case False
    then have "notifyNearbyUsers env report st =
        fold (\<lambda>user s. snd (sendPushNotification (uid user) (nearbyNotification report) s))
             (nearbyUsers env report st) st"
      unfolding notifyNearbyUsers_def by simp
    then show ?thesis
      by (simp only: fold_sendPush_notifications)
  qed
  then obtain new where new:
    "notifications (notifyNearbyUsers env report st) = notifications st @ new"
    "n_userId ` set new \<subseteq> uid ` set (nearbyUsers env report st)"
    by blast
  have x: "r_userId report \<notin> n_userId ` set new"
  proof
    assume "r_userId report \<in> n_userId ` set new"
    with new(2) have "r_userId report \<in> uid ` set (nearbyUsers env report st)"
      by (rule subsetD)
    with a show False by (rule notE)
  qed
  have l: "r_severity report = Low \<longrightarrow> notifyNearbyUsers env report st = st"
    unfolding notifyNearbyUsers_def by simp
  have "\<exists>new. notifications (notifyNearbyUsers env report st) = notifications st @ new
         \<and> n_userId ` set new \<subseteq> uid ` set (nearbyUsers env report st)
         \<and> r_userId report \<notin> n_userId ` set new"
    using new x by (intro exI [of _ new]) simp
  with q l show ?thesis by (intro conjI)
qed

theorem nearby_notification_excludes_author_witness:
  "map uid (nearbyUsers sampleEnv (sampleReport 3 7 500) nearbyState) = [8]
   \<and> map n_userId (notifications (notifyNearbyUsers sampleEnv (sampleReport 3 7 500) nearbyState))
        = [8]
   \<and> notifyNearbyUsers sampleEnv ((sampleReport 3 7 500)\<lparr>r_severity := Low\<rparr>) nearbyState
        = nearbyState"
proof -
  have n: "map uid (nearbyUsers sampleEnv (sampleReport 3 7 500) nearbyState) = [8]"
    by (simp add: nearbyUsers_def sampleEnv_def sampleReport_def nearbyState_def
        sampleState_def sampleUser_def)
  have f: "nearbyUsers sampleEnv (sampleReport 3 7 500) nearbyState = [sampleUser 8]"
    by (simp add: nearbyUsers_def sampleEnv_def sampleReport_def nearbyState_def
        sampleState_def sampleUser_def)
  have c: "r_severity (sampleReport 3 7 500) \<noteq> Low" "helpersResolve sampleEnv"
    by (simp_all add: sampleReport_def sampleEnv_def)
  have u: "findUser nearbyState 8 = Some (sampleUser 8)" "pref_push (sampleUser 8)"
    "uid (sampleUser 8) = 8" "notifications nearbyState = []"
    by (simp_all add: findUser_def nearbyState_def sampleState_def sampleUser_def)
  have m: "map n_userId (notifications
             (notifyNearbyUsers sampleEnv (sampleReport 3 7 500) nearbyState)) = [8]"
    by (simp add: notifyNearbyUsers_def c f sendPushNotification_def u)
  have l: "r_severity ((sampleReport 3 7 500)\<lparr>r_severity := Low\<rparr>) = Low"
    by simp
  show ?thesis
    using n m l
      nearby_notification_excludes_author
        [of sampleEnv "(sampleReport 3 7 500)\<lparr>r_severity := Low\<rparr>" nearbyState]
    by simp
qed

section \<open>Facts about the sample data\<close>

lemma sample_facts:
  "reportAccepted sampleEnv x" "alertAccepted sampleEnv y" "now sampleEnv = 1000"
  "analyzeReport sampleEnv x = Some (sampleAnalysis 85)"
  "reports sampleState = []" "alerts sampleState = []"
  "q_files sampleRequest = [''a.jpg'', ''b.jpg'', ''c.jpg'']"
  "q_type sampleRequest = R_weather"
  "q_location sampleRequest = LocParsed (sampleParsed 12.5 80.25)"
  "sampleLocation la lo = LocParsed (sampleParsed la lo)"
  "lat (sampleParsed la lo) = Some la" "lng (sampleParsed la lo) = Some lo"
  "ai_confidence (sampleAnalysis c) = c"
  "confidenceOf (sampleReport i u t) = Some 85"
  "r_type (sampleReport i u t) = R_tsunami"
  by (simp_all add: sampleEnv_def sampleState_def sampleRequest_def sampleLocation_def
      sampleParsed_def sampleAnalysis_def sampleReport_def confidenceOf_def)

lemma alertTypeOfReport_simps:
  "alertTypeOfReport R_weather = None" "alertTypeOfReport R_tsunami = Some A_tsunami"
  by (simp_all add: alertTypeOfReport_def)

lemma newReport_fields:
  "r_type (newReport t i req loc) = q_type req"
  "r_aiAnalysis (newReport t i req loc) = None"
  by (simp_all add: newReport_def)

lemma falsy_Some: "falsy (Some v) = (v = 0)"
  by (simp add: falsy_def)

section \<open>Points of a submission\<close>

lemma findUser_cong: "users s = users s' \<Longrightarrow> findUser s i = findUser s' i"
  by (simp add: findUser_def)








lemma findUser_autoGenerateAlert [simp]:
  "findUser (autoGenerateAlert env r st) j = findUser st j"
  by (rule findUser_cong) simp

lemma findUser_notifyNearbyUsers [simp]:
  "findUser (notifyNearbyUsers env r st) j = findUser st j"
  by (rule findUser_cong) simp

lemma awarded_frame [simp]:
  "alerts (awarded env req r0 st) = alerts st"
  "notifications (awarded env req r0 st) = notifications st"
  by (simp_all add: awarded_def Let_def)

lemma reports_awarded:
  "reports (awarded env req r0 st)
     = reports st @ [if reportValid (analysed env r0) \<and> reportAccepted env (analysed env r0)
                     then analysed env r0 else r0]"
  by (simp add: awarded_def Let_def)

lemma findUser_awarded:
  "findUser (awarded env req r0 st) (q_userId req)
     = map_option (\<lambda>u. u\<lparr>points := points u
                              + totalPoints (q_type req) (q_severity req) (q_files req),
                            lastActive := now env\<rparr>)
         (findUser st (q_userId req))"
  by (simp add: awarded_def Let_def findUser_updateUser)



lemma fst_afterSave:
  "fst (afterSave env req r0 st) =
     (if fst (checkAchievements env (q_userId req)
            (checkAndUpdateStreak (today env) (q_userId req) (awarded env req r0 st)))
      then NoReply
      else (case findUser st (q_userId req) of
              None \<Rightarrow> ServerError
            | Some u \<Rightarrow>
                Reply 201
                  \<lparr>s_report = analysed env r0,
                   pointsEarned = totalPoints (q_type req) (q_severity req) (q_files req),
                   newTotal = points u
                     + totalPoints (q_type req) (q_severity req) (q_files req)\<rparr>))"
  by (cases "findUser st (q_userId req)")
    (simp_all add: afterSave_def Let_def findUser_awarded)




lemma submit_proceeds:
  assumes "length (q_files req) \<le> 5" and "q_location req = LocParsed loc"
    and "\<not> falsy (lat loc)" and "\<not> falsy (lng loc)"
    and "reportValid (newReport (reportCreatedAt env) (fresh_id (map rid (reports st))) req loc)"
    and "reportAccepted env
           (newReport (reportCreatedAt env) (fresh_id (map rid (reports st))) req loc)"
  shows "submit env req st
           = afterSave env req
               (newReport (reportCreatedAt env) (fresh_id (map rid (reports st))) req loc) st"
  using assms by (simp add: submit_def Let_def)

lemma repository_facts:
  "now repositoryEnv = 1000" "helperNow repositoryEnv = 1040"
  "reportCreatedAt repositoryEnv = 990" "alertUpdatedAt repositoryEnv = 1002"
  "alertCreatedAt repositoryEnv = 1003" "today repositoryEnv = 0"
  "\<not> helpersResolve repositoryEnv"
  "analyzeReport repositoryEnv x = Some (sampleAnalysis 85)"
  "reportAccepted repositoryEnv r = withinGeoBounds (r_coordinates r)"
  "alertAccepted repositoryEnv a = withinGeoBounds (a_coordinates a)"
  by (simp_all add: repositoryEnv_def)





section \<open>Escalation of a critical report\<close>

lemma autoAlert_refused: "\<not> alertValid (autoAlert t tu tc i ty report)"
  by (simp add: alertValid_def autoAlert_def zoneCasts_def)

lemma alerts_autoGenerateAlert: "alerts (autoGenerateAlert env report st) = alerts st"
  by (simp add: autoGenerateAlert_def Let_def autoAlert_refused split: option.split)

lemma autoAlert_fields:
  "a_radius (autoAlert t tu tc i ty report) = 25"
  "a_aiPrediction (autoAlert t tu tc i ty report)"
  "a_expiresAt (autoAlert t tu tc i ty report) = Some (t + 43200000)"
  "a_evacuationZones (autoAlert t tu tc i ty report) = [ZoneText ''Immediate area (0-5km)'']"
  by (simp_all add: autoAlert_def)

text \<open>
  C4, where the code departs from it. A critical tsunami report with three
  attachments, from an author who has reported before, is scored by the AI with
  confidence 85. The submission is answered with 201 and the report in the reply is
  critical with confidence 85, so the handler calls \<open>autoGenerateAlert\<close>. The helper
  builds an alert with radius 25, \<open>aiPrediction\<close> true and \<open>expiresAt\<close> twelve
  hours after its reading of the clock, and gives the text
  \<open>Immediate area (0-5km)\<close> as an evacuation zone where the schema has a
  sub-document: the document does not pass the schema, \<open>save\<close> throws into the
  helper's catch, and the store has no alert after the submission, on the server of
  the repository and on a server that takes every document.
\<close>

theorem critical_report_stores_no_alert:
  "(\<exists>r. fst (submit repositoryEnv tsunamiRequest reportedState)
            = Reply 201 \<lparr>s_report = r, pointsEarned = 130, newTotal = 230\<rparr>
        \<and> r_type r = R_tsunami \<and> r_severity r = Critical \<and> confidenceOf r = Some 85
        \<and> a_radius (autoAlert (helperNow repositoryEnv) (alertUpdatedAt repositoryEnv)
               (alertCreatedAt repositoryEnv)
               (fresh_id (map aid (alerts reportedState))) A_tsunami r) = 25
        \<and> a_aiPrediction (autoAlert (helperNow repositoryEnv) (alertUpdatedAt repositoryEnv)
               (alertCreatedAt repositoryEnv)
               (fresh_id (map aid (alerts reportedState))) A_tsunami r)
        \<and> a_expiresAt (autoAlert (helperNow repositoryEnv) (alertUpdatedAt repositoryEnv)
               (alertCreatedAt repositoryEnv)
               (fresh_id (map aid (alerts reportedState))) A_tsunami r) = Some (1040 + 12 * 60 * 60 * 1000)
        \<and> \<not> alertValid (autoAlert (helperNow repositoryEnv) (alertUpdatedAt repositoryEnv)
               (alertCreatedAt repositoryEnv)
               (fresh_id (map aid (alerts reportedState))) A_tsunami r))
   \<and> alerts reportedState = []
   \<and> alerts (snd (submit repositoryEnv tsunamiRequest reportedState)) = []
   \<and> alerts (snd (submit sampleEnv tsunamiRequest reportedState)) = []"
proof -
  have a: "fst (submit repositoryEnv tsunamiRequest reportedState)
             = Reply 201
                 \<lparr>s_report = analysed repositoryEnv
                    (newReport 990 4 tsunamiRequest (sampleParsed 12.5 80.25)),
                  pointsEarned = 130, newTotal = 230\<rparr>"
    by (simp add: submit_def afterSave_def awarded_def analysed_def Let_def repositoryEnv_def
      tsunamiRequest_def sampleRequest_def reportedState_def sampleState_def sampleUser_def
      sampleReport_def
      sampleLocation_def sampleParsed_def falsy_def newReport_def reportValid_def
      withinGeoBounds_def fresh_id_def findUser_def updateUser_def checkAndUpdateStreak_def
      checkAchievements_def newAchievements_def countDocuments_def day_ms_def
      confidenceOf_def sampleAnalysis_def totalPoints_def basePoints_def pointsMap_def
      evidenceBonus_def severityMultiplier_def)
  have b: "r_type (analysed repositoryEnv
             (newReport 990 4 tsunamiRequest (sampleParsed 12.5 80.25))) = R_tsunami"
    "r_severity (analysed repositoryEnv
             (newReport 990 4 tsunamiRequest (sampleParsed 12.5 80.25))) = Critical"
    "confidenceOf (analysed repositoryEnv
             (newReport 990 4 tsunamiRequest (sampleParsed 12.5 80.25))) = Some 85"
    by (simp_all add: analysed_def repositoryEnv_def newReport_def tsunamiRequest_def
        confidenceOf_def sampleAnalysis_def)
  have c: "alerts reportedState = []"
    by (simp add: reportedState_def sampleState_def)
  have s: "alerts (snd (submit env tsunamiRequest reportedState)) = []" for env
    by (simp add: submit_def afterSave_def Let_def alerts_autoGenerateAlert c
        split: location_input.split option.split)
  show ?thesis
    using a b c s [of repositoryEnv] s [of sampleEnv]
    by (simp add: autoAlert_fields autoAlert_refused repository_facts)
qed

section \<open>The coordinate check\<close>

lemma submit_refused:
  assumes "length (q_files req) \<le> 5" and "q_location req = LocParsed loc"
    and "\<not> falsy (lat loc)" and "\<not> falsy (lng loc)"
    and "\<not> (reportValid (newReport (reportCreatedAt env) (fresh_id (map rid (reports st))) req loc)
            \<and> reportAccepted env
                 (newReport (reportCreatedAt env) (fresh_id (map rid (reports st))) req loc))"
  shows "submit env req st = (ServerError, st)"
  using assms by (simp add: submit_def Let_def)

lemma submit_rejects:
  assumes "length (q_files req) \<le> 5"
    and "q_location req = LocAbsent
         \<or> (\<exists>loc. q_location req = LocParsed loc \<and> (falsy (lat loc) \<or> falsy (lng loc)))"
  shows "submit env req st = (ErrorReply 400 ''Valid location coordinates required'', st)"
  using assms by (auto simp: submit_def)

lemma reports_afterSave:
  "reports (snd (afterSave env req r0 st))
     = reports st @ [if reportValid (analysed env r0) \<and> reportAccepted env (analysed env r0)
                     then analysed env r0 else r0]"
  by (simp add: afterSave_def Let_def reports_awarded split: option.split)

lemma fst_afterSave_no_error: "fst (afterSave env req r0 st) \<noteq> ErrorReply n m"
  by (simp add: fst_afterSave split: option.split)

lemma submit_malformed:
  assumes "length (q_files req) \<le> 5" and "q_location req = LocMalformed"
  shows "submit env req st = (ServerError, st)"
  using assms by (simp add: submit_def)

lemma r_coordinates_analysed [simp]: "r_coordinates (analysed env r) = r_coordinates r"
  by (simp add: analysed_def split: option.split)

lemma alerts_notifyAffectedUsers [simp]: "alerts (notifyAffectedUsers env a st) = alerts st"
  by (simp add: notifyAffectedUsers_def fold_sendPush_frame)

lemma createAlert_rejects:
  assumes "b_coordinates body = None
           \<or> (\<exists>c. b_coordinates body = Some c \<and> (falsy (c_lat c) \<or> falsy (c_lng c)))"
  shows "createAlert env body st = (ErrorReply 400 ''Valid coordinates required'', st)"
  using assms by (auto simp: createAlert_def)

lemma createAlert_proceeds:
  assumes "b_coordinates body = Some c" and "\<not> falsy (c_lat c)" and "\<not> falsy (c_lng c)"
  shows "createAlert env body st =
     (if alertValid (newAlert (now env) (alertUpdatedAt env) (alertCreatedAt env)
                       (fresh_id (map aid (alerts st))) body c)
         \<and> alertAccepted env (newAlert (now env) (alertUpdatedAt env) (alertCreatedAt env)
                       (fresh_id (map aid (alerts st))) body c)
      then (Reply 201 (newAlert (now env) (alertUpdatedAt env) (alertCreatedAt env)
                       (fresh_id (map aid (alerts st))) body c),
            notifyAffectedUsers env
              (newAlert (now env) (alertUpdatedAt env) (alertCreatedAt env)
                       (fresh_id (map aid (alerts st))) body c)
              (st\<lparr>alerts := alerts st
                 @ [newAlert (now env) (alertUpdatedAt env) (alertCreatedAt env)
                       (fresh_id (map aid (alerts st))) body c]\<rparr>))
      else (ServerError, st))"
  using assms by (simp add: createAlert_def Let_def)

text \<open>
  C2, as the code has it. The coordinate check of both routes is a presence check and
  no range check. A submission whose location is missing, or whose latitude or
  longitude is missing or 0, is answered with the 400 validation error and the store
  is unchanged; so is an alert creation whose coordinates are missing, or whose
  latitude or longitude is missing or 0. A location string that does not parse is
  answered with the 500 of the catch block. Every other pair of coordinates, in range
  or out of range, passes the check and goes unchanged, never clamped, into the
  document that is handed to the store. When the schema and the server take the
  document, it is persisted with these coordinates and the answer is no error of the
  route's own. When they refuse it, the request is answered with the 500 of the catch
  block, which is not the validation error, and the store is unchanged.
\<close>

theorem coordinate_check_is_presence_only:
  assumes "length (q_files req) \<le> 5"
  shows "(q_location req = LocAbsent
            \<or> (\<exists>loc. q_location req = LocParsed loc \<and> (falsy (lat loc) \<or> falsy (lng loc)))
          \<longrightarrow> submit env req st = (ErrorReply 400 ''Valid location coordinates required'', st))
       \<and> (q_location req = LocMalformed \<longrightarrow> submit env req st = (ServerError, st))
       \<and> (q_location req = LocParsed loc
            \<and> lat loc = Some la \<and> lng loc = Some lo \<and> la \<noteq> 0 \<and> lo \<noteq> 0 \<longrightarrow>
            r_coordinates (newReport (reportCreatedAt env) (fresh_id (map rid (reports st))) req loc)
              = (lo, la)
            \<and> (if reportValid
                    (newReport (reportCreatedAt env) (fresh_id (map rid (reports st))) req loc)
                  \<and> reportAccepted env
                    (newReport (reportCreatedAt env) (fresh_id (map rid (reports st))) req loc)
                then (\<exists>r. reports (snd (submit env req st)) = reports st @ [r]
                       \<and> r_coordinates r = (lo, la)
                       \<and> (r = newReport (reportCreatedAt env) (fresh_id (map rid (reports st)))
                                 req loc
                           \<or> r = analysed env
                                 (newReport (reportCreatedAt env)
                                    (fresh_id (map rid (reports st))) req loc)))
                   \<and> (\<forall>n m. fst (submit env req st) \<noteq> ErrorReply n m)
                else submit env req st = (ServerError, st)))
       \<and> (b_coordinates body = None
            \<or> (\<exists>c. b_coordinates body = Some c \<and> (falsy (c_lat c) \<or> falsy (c_lng c)))
          \<longrightarrow> createAlert env body st = (ErrorReply 400 ''Valid coordinates required'', st))
       \<and> (b_coordinates body = Some c
            \<and> c_lat c = Some la' \<and> c_lng c = Some lo' \<and> la' \<noteq> 0 \<and> lo' \<noteq> 0 \<longrightarrow>
            a_coordinates (newAlert (now env) (alertUpdatedAt env) (alertCreatedAt env)
                             (fresh_id (map aid (alerts st))) body c) = (lo', la')
            \<and> (if alertValid (newAlert (now env) (alertUpdatedAt env) (alertCreatedAt env)
                                (fresh_id (map aid (alerts st))) body c)
                  \<and> alertAccepted env (newAlert (now env) (alertUpdatedAt env) (alertCreatedAt env)
                                (fresh_id (map aid (alerts st))) body c)
                then fst (createAlert env body st)
                       = Reply 201 (newAlert (now env) (alertUpdatedAt env) (alertCreatedAt env)
                                      (fresh_id (map aid (alerts st))) body c)
                   \<and> alerts (snd (createAlert env body st))
                       = alerts st @ [newAlert (now env) (alertUpdatedAt env) (alertCreatedAt env)
                                        (fresh_id (map aid (alerts st))) body c]
                else createAlert env body st = (ServerError, st)))"
proof -
  let ?r0 = "newReport (reportCreatedAt env) (fresh_id (map rid (reports st))) req loc"
  let ?a0 = "newAlert (now env) (alertUpdatedAt env) (alertCreatedAt env)
               (fresh_id (map aid (alerts st))) body c"
  have p1: "q_location req = LocAbsent
            \<or> (\<exists>loc. q_location req = LocParsed loc \<and> (falsy (lat loc) \<or> falsy (lng loc)))
          \<longrightarrow> submit env req st = (ErrorReply 400 ''Valid location coordinates required'', st)"
    using submit_rejects [OF assms] by blast
  have p0: "q_location req = LocMalformed \<longrightarrow> submit env req st = (ServerError, st)"
    using submit_malformed [OF assms] by blast
  have p2: "q_location req = LocParsed loc
            \<and> lat loc = Some la \<and> lng loc = Some lo \<and> la \<noteq> 0 \<and> lo \<noteq> 0 \<longrightarrow>
            r_coordinates ?r0 = (lo, la)
            \<and> (if reportValid ?r0 \<and> reportAccepted env ?r0
                then (\<exists>r. reports (snd (submit env req st)) = reports st @ [r]
                       \<and> r_coordinates r = (lo, la)
                       \<and> (r = ?r0 \<or> r = analysed env ?r0))
                   \<and> (\<forall>n m. fst (submit env req st) \<noteq> ErrorReply n m)
                else submit env req st = (ServerError, st))"
  proof (intro impI, elim conjE)
    assume l: "q_location req = LocParsed loc"
      and c: "lat loc = Some la" "lng loc = Some lo" "la \<noteq> 0" "lo \<noteq> 0"
    then have f: "\<not> falsy (lat loc)" "\<not> falsy (lng loc)"
      by (simp_all add: falsy_Some)
    have k: "r_coordinates ?r0 = (lo, la)"
      using c by (simp add: newReport_def)
    have "if reportValid ?r0 \<and> reportAccepted env ?r0
          then (\<exists>r. reports (snd (submit env req st)) = reports st @ [r]
                 \<and> r_coordinates r = (lo, la)
                 \<and> (r = ?r0 \<or> r = analysed env ?r0))
             \<and> (\<forall>n m. fst (submit env req st) \<noteq> ErrorReply n m)
          else submit env req st = (ServerError, st)"
    proof (cases "reportValid ?r0 \<and> reportAccepted env ?r0")
      case True
      then have s: "submit env req st = afterSave env req ?r0 st"
        using submit_proceeds [OF assms l f] by simp
      have "reports (snd (submit env req st))
              = reports st @ [if reportValid (analysed env ?r0)
                                 \<and> reportAccepted env (analysed env ?r0)
                              then analysed env ?r0 else ?r0]"
        unfolding s by (rule reports_afterSave)
      moreover have "\<forall>n m. fst (submit env req st) \<noteq> ErrorReply n m"
        unfolding s by (simp add: fst_afterSave_no_error)
      ultimately show ?thesis using True k by auto
    next
      case False
      then show ?thesis
        using submit_refused [OF assms l f False] by simp
    qed
    with k show "r_coordinates ?r0 = (lo, la)
            \<and> (if reportValid ?r0 \<and> reportAccepted env ?r0
                then (\<exists>r. reports (snd (submit env req st)) = reports st @ [r]
                       \<and> r_coordinates r = (lo, la)
                       \<and> (r = ?r0 \<or> r = analysed env ?r0))
                   \<and> (\<forall>n m. fst (submit env req st) \<noteq> ErrorReply n m)
                else submit env req st = (ServerError, st))"
      by (intro conjI)
  qed
  have p3: "b_coordinates body = None
            \<or> (\<exists>c. b_coordinates body = Some c \<and> (falsy (c_lat c) \<or> falsy (c_lng c)))
          \<longrightarrow> createAlert env body st = (ErrorReply 400 ''Valid coordinates required'', st)"
    using createAlert_rejects by blast
  have p4: "b_coordinates body = Some c
            \<and> c_lat c = Some la' \<and> c_lng c = Some lo' \<and> la' \<noteq> 0 \<and> lo' \<noteq> 0 \<longrightarrow>
            a_coordinates ?a0 = (lo', la')
            \<and> (if alertValid ?a0 \<and> alertAccepted env ?a0
                then fst (createAlert env body st) = Reply 201 ?a0
                   \<and> alerts (snd (createAlert env body st)) = alerts st @ [?a0]
                else createAlert env body st = (ServerError, st))"
  proof (intro impI, elim conjE)
    assume b: "b_coordinates body = Some c"
      and c: "c_lat c = Some la'" "c_lng c = Some lo'" "la' \<noteq> 0" "lo' \<noteq> 0"
    then have f: "\<not> falsy (c_lat c)" "\<not> falsy (c_lng c)"
      by (simp_all add: falsy_Some)
    have k: "a_coordinates ?a0 = (lo', la')"
      using c by (simp add: newAlert_def)
    have "if alertValid ?a0 \<and> alertAccepted env ?a0
          then fst (createAlert env body st) = Reply 201 ?a0
             \<and> alerts (snd (createAlert env body st)) = alerts st @ [?a0]
          else createAlert env body st = (ServerError, st)"
      unfolding createAlert_proceeds [OF b f] by simp
    with k show "a_coordinates ?a0 = (lo', la')
            \<and> (if alertValid ?a0 \<and> alertAccepted env ?a0
                then fst (createAlert env body st) = Reply 201 ?a0
                   \<and> alerts (snd (createAlert env body st)) = alerts st @ [?a0]
                else createAlert env body st = (ServerError, st))"
      by (intro conjI)
  qed
  from p1 p0 p2 p3 p4 show ?thesis by (intro conjI)
qed

text \<open>
  C2 as stated fails: a report and an alert at latitude 95 and longitude 200 pass the
  coordinate check of their route. On the server of the repository, whose geo index
  refuses such a point, the request is answered with the 500 of the catch block and
  not with a validation error; on a server that takes every document, the report and
  the alert are persisted with exactly these coordinates.
\<close>

theorem coordinate_check_counterexample:
  "submit repositoryEnv (sampleRequest\<lparr>q_location := sampleLocation 95 200\<rparr>) reportedState
     = (ServerError, reportedState)
   \<and> createAlert repositoryEnv
       (sampleAlertRequest\<lparr>b_coordinates := Some (sampleCoordinates 95 200)\<rparr>) alertState
     = (ServerError, alertState)
   \<and> map r_coordinates (reports (snd (submit sampleEnv
       (sampleRequest\<lparr>q_location := sampleLocation 95 200\<rparr>) sampleState))) = [(200, 95)]
   \<and> map a_coordinates (alerts (snd (createAlert sampleEnv
       (sampleAlertRequest\<lparr>b_coordinates := Some (sampleCoordinates 95 200)\<rparr>) sampleState)))
       = [(200, 95)]"
proof -
  let ?req = "sampleRequest\<lparr>q_location := sampleLocation 95 200\<rparr>"
  let ?r0 = "newReport (reportCreatedAt sampleEnv) (fresh_id (map rid (reports sampleState)))
               ?req (sampleParsed 95 200)"
  have r: "submit repositoryEnv ?req reportedState = (ServerError, reportedState)"
    by (simp add: submit_def sample_facts falsy_Some Let_def repository_facts newReport_def
        withinGeoBounds_def)
  have q: "createAlert repositoryEnv
       (sampleAlertRequest\<lparr>b_coordinates := Some (sampleCoordinates 95 200)\<rparr>) alertState
     = (ServerError, alertState)"
    by (simp add: createAlert_def sampleCoordinates_def falsy_Some Let_def repository_facts
        newAlert_def withinGeoBounds_def)
  have s: "submit sampleEnv ?req sampleState = afterSave sampleEnv ?req ?r0 sampleState"
    by (rule submit_proceeds)
      (simp_all add: sample_facts falsy_Some reportValid_def newReport_def sampleRequest_def)
  have k: "r_coordinates ?r0 = (200, 95)"
    by (simp add: newReport_def sample_facts)
  have a: "map r_coordinates (reports (snd (submit sampleEnv ?req sampleState))) = [(200, 95)]"
    unfolding s reports_afterSave using k by (simp add: sample_facts)
  have b: "map a_coordinates (alerts (snd (createAlert sampleEnv
       (sampleAlertRequest\<lparr>b_coordinates := Some (sampleCoordinates 95 200)\<rparr>) sampleState)))
       = [(200, 95)]"
    by (simp add: createAlert_def sampleCoordinates_def falsy_Some sample_facts Let_def
        newAlert_def alertValid_def sampleAlertRequest_def)
  from r q a b show ?thesis by (intro conjI)
qed

theorem coordinate_check_is_presence_only_witness:
  "submit repositoryEnv (sampleRequest\<lparr>q_location := LocAbsent\<rparr>) reportedState
     = (ErrorReply 400 ''Valid location coordinates required'', reportedState)
   \<and> submit repositoryEnv (sampleRequest\<lparr>q_location := LocMalformed\<rparr>) reportedState
     = (ServerError, reportedState)
   \<and> createAlert repositoryEnv (sampleAlertRequest\<lparr>b_coordinates := None\<rparr>) alertState
     = (ErrorReply 400 ''Valid coordinates required'', alertState)
   \<and> submit repositoryEnv (sampleRequest\<lparr>q_location := sampleLocation 95 200\<rparr>) reportedState
     = (ServerError, reportedState)
   \<and> createAlert repositoryEnv
       (sampleAlertRequest\<lparr>b_coordinates := Some (sampleCoordinates 95 200)\<rparr>) alertState
     = (ServerError, alertState)
   \<and> (\<exists>r. reports (snd (submit repositoryEnv sampleRequest reportedState))
             = reports reportedState @ [r]
        \<and> r_coordinates r = (80.25, 12.5))
   \<and> alerts (snd (createAlert repositoryEnv sampleAlertRequest alertState))
       = alerts alertState @ [newAlert 1000 1002 1003 6 sampleAlertRequest
                                (sampleCoordinates 13 80.5)]"
proof -
  have h: "length (q_files (sampleRequest\<lparr>q_location := l\<rparr>)) \<le> 5" for l
    by (simp add: sample_facts)
  have h': "length (q_files sampleRequest) \<le> 5"
    by (simp add: sample_facts)
  have c: "c_lat (sampleCoordinates la lo) = Some la" "c_lng (sampleCoordinates la lo) = Some lo"
    for la lo
    by (simp_all add: sampleCoordinates_def)
  have w1: "submit repositoryEnv (sampleRequest\<lparr>q_location := LocAbsent\<rparr>) reportedState
     = (ErrorReply 400 ''Valid location coordinates required'', reportedState)"
    using coordinate_check_is_presence_only
      [where req = "sampleRequest\<lparr>q_location := LocAbsent\<rparr>" and env = repositoryEnv
         and st = reportedState, OF h, THEN conjunct1]
    by simp
  have w0: "submit repositoryEnv (sampleRequest\<lparr>q_location := LocMalformed\<rparr>) reportedState
     = (ServerError, reportedState)"
    using coordinate_check_is_presence_only
      [where req = "sampleRequest\<lparr>q_location := LocMalformed\<rparr>" and env = repositoryEnv
         and st = reportedState, OF h, THEN conjunct2, THEN conjunct1]
    by simp
  have w2: "createAlert repositoryEnv (sampleAlertRequest\<lparr>b_coordinates := None\<rparr>) alertState
     = (ErrorReply 400 ''Valid coordinates required'', alertState)"
    using coordinate_check_is_presence_only
      [where req = sampleRequest and env = repositoryEnv and st = alertState
         and body = "sampleAlertRequest\<lparr>b_coordinates := None\<rparr>",
       OF h', THEN conjunct2, THEN conjunct2, THEN conjunct2, THEN conjunct1]
    by simp
  have w3: "submit repositoryEnv (sampleRequest\<lparr>q_location := sampleLocation 95 200\<rparr>)
              reportedState = (ServerError, reportedState)"
    using coordinate_check_is_presence_only
      [where req = "sampleRequest\<lparr>q_location := sampleLocation 95 200\<rparr>"
         and env = repositoryEnv and st = reportedState
         and loc = "sampleParsed 95 200" and la = 95 and lo = 200,
       OF h, THEN conjunct2, THEN conjunct2, THEN conjunct1]
    by (simp add: sample_facts repository_facts withinGeoBounds_def newReport_def)
  have w4: "createAlert repositoryEnv
       (sampleAlertRequest\<lparr>b_coordinates := Some (sampleCoordinates 95 200)\<rparr>) alertState
     = (ServerError, alertState)"
    using coordinate_check_is_presence_only
      [where req = sampleRequest and env = repositoryEnv and st = alertState
         and body = "sampleAlertRequest\<lparr>b_coordinates := Some (sampleCoordinates 95 200)\<rparr>"
         and c = "sampleCoordinates 95 200" and la' = 95 and lo' = 200,
       OF h', THEN conjunct2, THEN conjunct2, THEN conjunct2, THEN conjunct2]
    by (simp add: c repository_facts withinGeoBounds_def newAlert_def)
  have w5: "\<exists>r. reports (snd (submit repositoryEnv sampleRequest reportedState))
             = reports reportedState @ [r]
        \<and> r_coordinates r = (80.25, 12.5)"
    using coordinate_check_is_presence_only
      [where req = sampleRequest and env = repositoryEnv and st = reportedState
         and loc = "sampleParsed 12.5 80.25" and la = "12.5" and lo = "80.25",
       OF h', THEN conjunct2, THEN conjunct2, THEN conjunct1]
    by (simp add: sample_facts repository_facts withinGeoBounds_def reportValid_def
        newReport_def sampleRequest_def) blast
  have w6: "alerts (snd (createAlert repositoryEnv sampleAlertRequest alertState))
       = alerts alertState @ [newAlert 1000 1002 1003 6 sampleAlertRequest
                                (sampleCoordinates 13 80.5)]"
    using coordinate_check_is_presence_only
      [where req = sampleRequest and env = repositoryEnv and st = alertState
         and body = sampleAlertRequest
         and c = "sampleCoordinates 13 80.5" and la' = 13 and lo' = "80.5",
       OF h', THEN conjunct2, THEN conjunct2, THEN conjunct2, THEN conjunct2]
    by (simp add: c repository_facts withinGeoBounds_def alertValid_def newAlert_def
        sampleAlertRequest_def alertState_def sampleAlert_def fresh_id_def)
  from w1 w0 w2 w3 w4 w5 w6 show ?thesis by (intro conjI)
qed

section \<open>Updating and deactivating an alert\<close>











section \<open>Expiry of a created alert\<close>

lemma newAlert_duration:
  "newAlert t tu tc i (body\<lparr>b_duration := d\<rparr>) c = newAlert t tu tc i body c"
  by (simp add: newAlert_def)

lemma createAlert_duration:
  "createAlert env (body\<lparr>b_duration := d\<rparr>) st = createAlert env body st"
  by (simp add: createAlert_def newAlert_duration split: option.split)

text \<open>
  C3, as the code has it. The create route reads no duration from the request: it
  answers the same and leaves the same store with and without one. Every alert that
  it creates has \<open>expiresAt\<close> 24 hours after the route's own reading of the clock
  and \<open>createdAt\<close> from the schema default, which reads the clock when the document
  is built: when that reading is not earlier than the route's, \<open>expiresAt\<close> is at
  most \<open>createdAt\<close> + 24 hours, and it is \<open>createdAt\<close> + 24 hours when the two
  readings agree.
\<close>

theorem create_expires_24h_after_route_clock:
  assumes "b_coordinates body = Some c"
    and "\<not> falsy (c_lat c)" and "\<not> falsy (c_lng c)"
    and "alertValid (newAlert (now env) (alertUpdatedAt env) (alertCreatedAt env)
                       (fresh_id (map aid (alerts st))) body c)"
    and "alertAccepted env (newAlert (now env) (alertUpdatedAt env) (alertCreatedAt env)
                       (fresh_id (map aid (alerts st))) body c)"
  shows "(\<exists>a. fst (createAlert env body st) = Reply 201 a
            \<and> alerts (snd (createAlert env body st)) = alerts st @ [a]
            \<and> a_createdAt a = alertCreatedAt env
            \<and> a_expiresAt a = Some (now env + 24 * 60 * 60 * 1000)
            \<and> (now env \<le> alertCreatedAt env \<longrightarrow>
                 (\<exists>e. a_expiresAt a = Some e \<and> e \<le> a_createdAt a + 24 * 60 * 60 * 1000))
            \<and> (now env = alertCreatedAt env \<longrightarrow>
                 a_expiresAt a = Some (a_createdAt a + 24 * 60 * 60 * 1000)))
       \<and> createAlert env (body\<lparr>b_duration := d\<rparr>) st = createAlert env body st"
proof -
  let ?a0 = "newAlert (now env) (alertUpdatedAt env) (alertCreatedAt env)
               (fresh_id (map aid (alerts st))) body c"
  have s: "createAlert env body st
             = (Reply 201 ?a0, notifyAffectedUsers env ?a0 (st\<lparr>alerts := alerts st @ [?a0]\<rparr>))"
    using createAlert_proceeds [OF assms(1-3), of env st] assms(4,5) by simp
  have f: "a_createdAt ?a0 = alertCreatedAt env"
    "a_expiresAt ?a0 = Some (now env + 24 * 60 * 60 * 1000)"
    by (simp_all add: newAlert_def)
  have "fst (createAlert env body st) = Reply 201 ?a0
            \<and> alerts (snd (createAlert env body st)) = alerts st @ [?a0]
            \<and> a_createdAt ?a0 = alertCreatedAt env
            \<and> a_expiresAt ?a0 = Some (now env + 24 * 60 * 60 * 1000)
            \<and> (now env \<le> alertCreatedAt env \<longrightarrow>
                 (\<exists>e. a_expiresAt ?a0 = Some e \<and> e \<le> a_createdAt ?a0 + 24 * 60 * 60 * 1000))
            \<and> (now env = alertCreatedAt env \<longrightarrow>
                 a_expiresAt ?a0 = Some (a_createdAt ?a0 + 24 * 60 * 60 * 1000))"
    unfolding s f by simp
  then have "\<exists>a. fst (createAlert env body st) = Reply 201 a
            \<and> alerts (snd (createAlert env body st)) = alerts st @ [a]
            \<and> a_createdAt a = alertCreatedAt env
            \<and> a_expiresAt a = Some (now env + 24 * 60 * 60 * 1000)
            \<and> (now env \<le> alertCreatedAt env \<longrightarrow>
                 (\<exists>e. a_expiresAt a = Some e \<and> e \<le> a_createdAt a + 24 * 60 * 60 * 1000))
            \<and> (now env = alertCreatedAt env \<longrightarrow>
                 a_expiresAt a = Some (a_createdAt a + 24 * 60 * 60 * 1000))"
    by (rule exI)
  then show ?thesis
    using createAlert_duration by (intro conjI)
qed

text \<open>
  C3 as stated fails: the alert created with the duration \<open>6 hours\<close> when the route
  reads the clock at 1000 expires 24 hours after 1000, on a server that takes every
  document and on the server of the repository.
\<close>

theorem create_ignores_duration_counterexample:
  "map a_createdAt (alerts (snd (createAlert sampleEnv
       (sampleAlertRequest\<lparr>b_duration := Some ''6 hours''\<rparr>) sampleState))) = [1000]
   \<and> map a_expiresAt (alerts (snd (createAlert sampleEnv
       (sampleAlertRequest\<lparr>b_duration := Some ''6 hours''\<rparr>) sampleState)))
       = [Some (1000 + 24 * 60 * 60 * 1000)]
   \<and> map a_createdAt (alerts (snd (createAlert repositoryEnv
       (sampleAlertRequest\<lparr>b_duration := Some ''6 hours''\<rparr>) sampleState))) = [1003]
   \<and> map a_expiresAt (alerts (snd (createAlert repositoryEnv
       (sampleAlertRequest\<lparr>b_duration := Some ''6 hours''\<rparr>) sampleState)))
       = [Some (1000 + 24 * 60 * 60 * 1000)]"
  by (simp add: createAlert_def sampleAlertRequest_def sampleCoordinates_def falsy_def
      sampleEnv_def repositoryEnv_def sampleState_def newAlert_def Let_def alertValid_def
      withinGeoBounds_def)

theorem create_expires_24h_after_route_clock_witness:
  "(\<exists>a. fst (createAlert repositoryEnv sampleAlertRequest sampleState) = Reply 201 a
        \<and> alerts (snd (createAlert repositoryEnv sampleAlertRequest sampleState)) = [a]
        \<and> a_createdAt a = 1003 \<and> a_expiresAt a = Some 86401000)
   \<and> createAlert repositoryEnv (sampleAlertRequest\<lparr>b_duration := Some ''6 hours''\<rparr>) sampleState
        = createAlert repositoryEnv sampleAlertRequest sampleState
   \<and> (\<exists>a. fst (createAlert sampleEnv sampleAlertRequest sampleState) = Reply 201 a
        \<and> a_createdAt a = 1000 \<and> a_expiresAt a = Some (a_createdAt a + 86400000))"
proof -
  have h1: "b_coordinates sampleAlertRequest = Some (sampleCoordinates 13 80.5)"
    by (simp add: sampleAlertRequest_def)
  have h2: "\<not> falsy (c_lat (sampleCoordinates 13 80.5))"
    by (simp add: sampleCoordinates_def falsy_def)
  have h3: "\<not> falsy (c_lng (sampleCoordinates 13 80.5))"
    by (simp add: sampleCoordinates_def falsy_def)
  have h4: "alertValid (newAlert t tu tc i sampleAlertRequest (sampleCoordinates 13 80.5))"
    for t tu tc i
    by (simp add: alertValid_def newAlert_def sampleAlertRequest_def)
  have h5: "alertAccepted repositoryEnv
              (newAlert t tu tc i sampleAlertRequest (sampleCoordinates 13 80.5))"
    for t tu tc i
    by (simp add: repository_facts withinGeoBounds_def newAlert_def sampleCoordinates_def)
  have h6: "alertAccepted sampleEnv x" for x
    by (simp add: sample_facts)
  have e: "alertCreatedAt sampleEnv = 1000" by (simp add: sampleEnv_def)
  note R = create_expires_24h_after_route_clock
      [where env = repositoryEnv and st = sampleState and d = "Some ''6 hours''",
       OF h1 h2 h3 h4 h5]
  note S = create_expires_24h_after_route_clock
      [where env = sampleEnv and st = sampleState and d = None, OF h1 h2 h3 h4 h6,
       THEN conjunct1]
  have w1: "\<exists>a. fst (createAlert repositoryEnv sampleAlertRequest sampleState) = Reply 201 a
        \<and> alerts (snd (createAlert repositoryEnv sampleAlertRequest sampleState)) = [a]
        \<and> a_createdAt a = 1003 \<and> a_expiresAt a = Some 86401000"
    using R [THEN conjunct1] by (auto simp: repository_facts sample_facts)
  have w3: "\<exists>a. fst (createAlert sampleEnv sampleAlertRequest sampleState) = Reply 201 a
        \<and> a_createdAt a = 1000 \<and> a_expiresAt a = Some (a_createdAt a + 86400000)"
    using S by (auto simp: sample_facts e)
  from w1 R [THEN conjunct2] w3 show ?thesis by (intro conjI)
qed

section \<open>The active-alerts query\<close>

lemma newAlert_expiresAt:
  "a_expiresAt (newAlert t tu tc i body c) = Some (t + 86400000)"
  "a_createdAt (newAlert t tu tc i body c) = tc"
  "a_updatedAt (newAlert t tu tc i body c) = tu"
  "a_active (newAlert t tu tc i body c)"
  by (simp_all add: newAlert_def)

lemma set_sortAlerts [simp]: "set (sortAlerts xs) = set xs"
  by (simp add: sortAlerts_def)

lemma length_sortAlerts [simp]: "length (sortAlerts xs) = length xs"
  by (simp add: sortAlerts_def)

lemma matchesQuery_noFilter:
  "matchesQuery env noFilter a
     = (a_active a \<and> (case a_expiresAt a of Some e \<Rightarrow> e > now env | None \<Rightarrow> True))"
  by (simp add: matchesQuery_def noFilter_def)

lemma getAlerts_subset: "set (getAlerts env q st) \<subseteq> set (filter (matchesQuery env q) (alerts st))"
proof -
  have "set (take 50 (sortAlerts (filter (matchesQuery env q) (alerts st))))
          \<subseteq> set (sortAlerts (filter (matchesQuery env q) (alerts st)))"
    by (rule set_take_subset)
  then show ?thesis by (simp add: getAlerts_def)
qed

lemma getAlerts_all:
  "length (filter (matchesQuery env q) (alerts st)) \<le> 50 \<Longrightarrow>
     set (getAlerts env q st) = set (filter (matchesQuery env q) (alerts st))"
  by (simp add: getAlerts_def)

lemma expired_not_matching:
  "a_expiresAt a = Some e \<Longrightarrow> e \<le> now env \<Longrightarrow> \<not> matchesQuery env q a"
  by (simp add: matchesQuery_def)

text \<open>
  C8, as the code has it. The query without filters returns at most 50 alerts, each
  of them stored, active and either without \<open>expiresAt\<close> or with \<open>expiresAt\<close>
  strictly later than the query time; when at most 50 alerts are such, it returns
  exactly these. An alert that the create route built at the clock reading \<open>T\<close>,
  with the default expiry, is returned at \<open>T + 1h\<close> (when it is stored and at most 50
  alerts match) and is not returned at \<open>T + 25h\<close>, whatever its flag and whatever
  the readings of its schema defaults.
\<close>

theorem active_query:
  "(\<forall>a \<in> set (getAlerts env noFilter st).
       a \<in> set (alerts st) \<and> a_active a
       \<and> (a_expiresAt a = None \<or> (\<exists>e. a_expiresAt a = Some e \<and> now env < e)))
   \<and> length (getAlerts env noFilter st) \<le> 50
   \<and> (length (filter (matchesQuery env noFilter) (alerts st)) \<le> 50 \<longrightarrow>
        set (getAlerts env noFilter st)
          = {a \<in> set (alerts st). a_active a
               \<and> (a_expiresAt a = None \<or> (\<exists>e. a_expiresAt a = Some e \<and> now env < e))})
   \<and> (now env = T + 60 * 60 * 1000 \<and> newAlert T tu tc i body c \<in> set (alerts st)
        \<and> length (filter (matchesQuery env noFilter) (alerts st)) \<le> 50 \<longrightarrow>
        newAlert T tu tc i body c \<in> set (getAlerts env noFilter st))
   \<and> (now env = T + 25 * 60 * 60 * 1000 \<longrightarrow>
        newAlert T tu tc i body c \<notin> set (getAlerts env noFilter st))"
proof -
  have m: "matchesQuery env noFilter a
      = (a_active a \<and> (a_expiresAt a = None \<or> (\<exists>e. a_expiresAt a = Some e \<and> now env < e)))"
    for a
    by (cases "a_expiresAt a") (simp_all add: matchesQuery_noFilter)
  have s: "set (filter (matchesQuery env noFilter) (alerts st))
      = {a \<in> set (alerts st). a_active a
               \<and> (a_expiresAt a = None \<or> (\<exists>e. a_expiresAt a = Some e \<and> now env < e))}"
    by (simp add: m)
  have p1: "\<forall>a \<in> set (getAlerts env noFilter st).
       a \<in> set (alerts st) \<and> a_active a
       \<and> (a_expiresAt a = None \<or> (\<exists>e. a_expiresAt a = Some e \<and> now env < e))"
    using getAlerts_subset [of env noFilter st] unfolding s by blast
  have p2: "length (getAlerts env noFilter st) \<le> 50"
    by (simp add: getAlerts_def)
  have p3: "length (filter (matchesQuery env noFilter) (alerts st)) \<le> 50 \<longrightarrow>
        set (getAlerts env noFilter st)
          = {a \<in> set (alerts st). a_active a
               \<and> (a_expiresAt a = None \<or> (\<exists>e. a_expiresAt a = Some e \<and> now env < e))}"
    using getAlerts_all [of env noFilter st] unfolding s by blast
  have p4: "now env = T + 60 * 60 * 1000 \<and> newAlert T tu tc i body c \<in> set (alerts st)
        \<and> length (filter (matchesQuery env noFilter) (alerts st)) \<le> 50 \<longrightarrow>
        newAlert T tu tc i body c \<in> set (getAlerts env noFilter st)"
  proof (intro impI, elim conjE)
    assume n: "now env = T + 60 * 60 * 1000" and a: "newAlert T tu tc i body c \<in> set (alerts st)"
      and l: "length (filter (matchesQuery env noFilter) (alerts st)) \<le> 50"
    have "matchesQuery env noFilter (newAlert T tu tc i body c)"
      by (simp add: matchesQuery_noFilter newAlert_expiresAt n)
    with a have "newAlert T tu tc i body c \<in> set (filter (matchesQuery env noFilter) (alerts st))"
      by simp
    with l show "newAlert T tu tc i body c \<in> set (getAlerts env noFilter st)"
      by (simp only: getAlerts_all)
  qed
  have p5: "now env = T + 25 * 60 * 60 * 1000 \<longrightarrow>
        newAlert T tu tc i body c \<notin> set (getAlerts env noFilter st)"
  proof
    assume n: "now env = T + 25 * 60 * 60 * 1000"
    have "\<not> matchesQuery env noFilter (newAlert T tu tc i body c)"
      by (rule expired_not_matching [of _ "T + 86400000"]) (simp_all add: newAlert_expiresAt n)
    then show "newAlert T tu tc i body c \<notin> set (getAlerts env noFilter st)"
      using getAlerts_subset [of env noFilter st] by auto
  qed
  from p1 p2 p3 p4 p5 show ?thesis by (intro conjI)
qed

text \<open>
  C8 as stated fails twice: an active alert without \<open>expiresAt\<close> is returned, and of
  51 active unexpired alerts only 50 are returned.
\<close>

theorem active_query_counterexample:
  "getAlerts sampleEnv noFilter noExpiryState = [(sampleAlert 5 0)\<lparr>a_expiresAt := None\<rparr>]
   \<and> \<not> spec_activeUnexpired (now sampleEnv) ((sampleAlert 5 0)\<lparr>a_expiresAt := None\<rparr>)
   \<and> length (filter (spec_activeUnexpired (now sampleEnv)) (alerts crowdedState)) = 51
   \<and> length (getAlerts sampleEnv noFilter crowdedState) = 50"
proof -
  have m: "matchesQuery sampleEnv noFilter (sampleAlert i 0)" for i
    by (simp add: matchesQuery_noFilter sampleAlert_def newAlert_expiresAt sampleEnv_def)
  have u: "spec_activeUnexpired (now sampleEnv) (sampleAlert i 0)" for i
    by (simp add: spec_activeUnexpired_def sampleAlert_def newAlert_expiresAt sampleEnv_def)
  have a: "getAlerts sampleEnv noFilter noExpiryState = [(sampleAlert 5 0)\<lparr>a_expiresAt := None\<rparr>]"
    by (simp add: getAlerts_def noExpiryState_def matchesQuery_noFilter sortAlerts_def
        sampleAlert_def newAlert_expiresAt)
  have b: "\<not> spec_activeUnexpired (now sampleEnv) ((sampleAlert 5 0)\<lparr>a_expiresAt := None\<rparr>)"
    by (simp add: spec_activeUnexpired_def)
  have c: "length (filter (spec_activeUnexpired (now sampleEnv)) (alerts crowdedState)) = 51"
    by (simp add: crowdedState_def filter_map o_def u)
  have d: "length (getAlerts sampleEnv noFilter crowdedState) = 50"
    by (simp add: getAlerts_def crowdedState_def filter_map o_def m)
  from a b c d show ?thesis by (intro conjI)
qed

theorem active_query_witness:
  "sampleAlert 5 0 \<in> set (getAlerts (sampleEnv\<lparr>now := 3600000\<rparr>) noFilter alertState)
   \<and> sampleAlert 5 0 \<notin> set (getAlerts (sampleEnv\<lparr>now := 90000000\<rparr>) noFilter alertState)"
proof -
  have l: "length (filter (matchesQuery (sampleEnv\<lparr>now := 3600000\<rparr>) noFilter)
             (alerts alertState)) \<le> 50"
    by (simp add: alertState_def)
  have a: "newAlert 0 0 0 5 sampleAlertRequest (sampleCoordinates 13 80.5) \<in> set (alerts alertState)"
    by (simp add: alertState_def sampleAlert_def)
  have n1: "now (sampleEnv\<lparr>now := 3600000\<rparr>) = 0 + 60 * 60 * 1000"
    by simp
  have n2: "now (sampleEnv\<lparr>now := 90000000\<rparr>) = 0 + 25 * 60 * 60 * 1000"
    by simp
  have "newAlert 0 0 0 5 sampleAlertRequest (sampleCoordinates 13 80.5)
          \<in> set (getAlerts (sampleEnv\<lparr>now := 3600000\<rparr>) noFilter alertState)"
    using active_query [of "sampleEnv\<lparr>now := 3600000\<rparr>" alertState 0 0 0 5 sampleAlertRequest
        "sampleCoordinates 13 80.5", THEN conjunct2, THEN conjunct2, THEN conjunct2,
        THEN conjunct1, THEN mp, OF conjI [OF n1 conjI [OF a l]]] .
  moreover have "newAlert 0 0 0 5 sampleAlertRequest (sampleCoordinates 13 80.5)
          \<notin> set (getAlerts (sampleEnv\<lparr>now := 90000000\<rparr>) noFilter alertState)"
    using active_query [of "sampleEnv\<lparr>now := 90000000\<rparr>" alertState 0 0 0 5 sampleAlertRequest
        "sampleCoordinates 13 80.5", THEN conjunct2, THEN conjunct2, THEN conjunct2,
        THEN conjunct2, THEN mp, OF n2] .
  ultimately show ?thesis unfolding sampleAlert_def by (intro conjI)
qed

end
